theory Spec2Isabelle
  imports
    Complex_Main
    "HOL-Library.Word"
    "HOL-Library.AList"
    "HOL-Library.List_Lexorder"
    "HOL-Library.Char_ord"
    "HOL-Library.Log_Nat"
begin

unbundle bit_operations_syntax

section \<open>A client for the VBB transport API\<close>

text \<open>
  The repository holds two generations of one Go package: the older one (\<open>src/vbb.go\<close>,
  base URL \<open>v5.vbb.transport.rest\<close>, called generation A) and the newer one (base URL
  \<open>v6.vbb.transport.rest\<close>, generation B). Both declare the same names; where the two
  differ, the definitions below carry the suffix \<open>_A\<close> or \<open>_B\<close>.

  Go strings are byte sequences and so are HOL strings. What the Go standard library does
  (\<open>net/url\<close>, \<open>strconv\<close>, \<open>time\<close>, \<open>encoding/json\<close>, \<open>net/http\<close>) is either
  written out from its documented behaviour or taken as a parameter; each place says which.
\<close>

subsection \<open>Errors\<close>

text \<open>
  An error is either one that a library call returned, or \<open>fmt.Errorf("<text>: %w", err)\<close>:
  a text wrapped around its cause.
\<close>

datatype error = LibError string | Errorf string error

subsection \<open>\<open>strconv\<close> and \<open>net/url\<close>\<close>

definition FormatBool :: "bool \<Rightarrow> string" where
  "FormatBool b = (if b then ''true'' else ''false'')"

text \<open>
  \<open>url.Values\<close> is \<open>map[string][]string\<close>: an association list with one entry for a key.
  \<open>Set\<close> replaces what the key had by the one value.
\<close>

type_synonym Values = "(string \<times> string list) list"

definition Values_Set :: "Values \<Rightarrow> string \<Rightarrow> string \<Rightarrow> Values" where
  "Values_Set q k v = AList.update k [v] q"

definition upperhex :: string where
  "upperhex = ''0123456789ABCDEF''"

text \<open>\<open>shouldEscape\<close> in the mode of a query component: letters, digits and \<open>-_.~\<close> stay.\<close>

definition shouldEscape :: "char \<Rightarrow> bool" where
  "shouldEscape ch =
     (let n = (of_char ch :: nat)
      in \<not> ((97 \<le> n \<and> n \<le> 122) \<or> (65 \<le> n \<and> n \<le> 90) \<or> (48 \<le> n \<and> n \<le> 57)
             \<or> ch \<in> set ''-_.~''))"

definition escape_byte :: "char \<Rightarrow> string" where
  "escape_byte ch =
     (if ch = CHR '' '' then ''+''
      else if shouldEscape ch
        then [CHR ''%'', upperhex ! ((of_char ch :: nat) div 16), upperhex ! ((of_char ch :: nat) mod 16)]
      else [ch])"

definition QueryEscape :: "string \<Rightarrow> string" where
  "QueryEscape s = concat (map escape_byte s)"

fun join_amp :: "string list \<Rightarrow> string" where
  "join_amp [] = ''''"
| "join_amp [p] = p"
| "join_amp (p # ps) = p @ ''&'' @ join_amp ps"

text \<open>\<open>Values.Encode\<close>: the keys in sorted order, every value as \<open>key=value\<close>, joined by \<open>&\<close>.\<close>

definition Values_Encode :: "Values \<Rightarrow> string" where
  "Values_Encode q =
     join_amp (concat (map (\<lambda>k. map (\<lambda>v. QueryEscape k @ ''='' @ QueryEscape v)
                                  (case map_of q k of None \<Rightarrow> [] | Some vs \<Rightarrow> vs))
                       (sort (remdups (map fst q)))))"

text \<open>
  How \<open>url.Parse\<close> (inside \<open>http.NewRequest\<close>) finds the query of a URL text: the
  text is cut at the first \<open>#\<close>, and the query is what follows the first \<open>?\<close> before
  that cut.
\<close>

definition RawQuery :: "string \<Rightarrow> string" where
  "RawQuery u =
     drop 1 (dropWhile (\<lambda>ch. ch \<noteq> CHR ''?'') (takeWhile (\<lambda>ch. ch \<noteq> CHR ''#'') u))"

subsection \<open>Integers as decimal text\<close>

definition digit_char :: "nat \<Rightarrow> char" where
  "digit_char d = char_of (48 + d)"

fun digits :: "nat \<Rightarrow> string" where
  "digits n = (if n < 10 then [digit_char n] else digits (n div 10) @ [digit_char (n mod 10)])"

declare digits.simps [simp del]

text \<open>\<open>strconv.Itoa\<close>.\<close>

definition Itoa :: "int \<Rightarrow> string" where
  "Itoa i = (if i < 0 then ''-'' @ digits (nat (- i)) else digits (nat i))"

text \<open>
  \<open>appendInt\<close> of package \<open>time\<close>: a minus sign for a negative number, then the digits
  padded with zeros to \<open>width\<close> at least.
\<close>

definition appendInt :: "int \<Rightarrow> nat \<Rightarrow> string" where
  "appendInt x width =
     (let ds = digits (nat \<bar>x\<bar>)
      in (if x < 0 then ''-'' else []) @ replicate (width - length ds) CHR ''0'' @ ds)"

text \<open>Go's \<open>/\<close> and \<open>%\<close> on integers truncate towards zero.\<close>

definition quo :: "int \<Rightarrow> int \<Rightarrow> int" where
  "quo a b = sgn a * sgn b * (\<bar>a\<bar> div \<bar>b\<bar>)"

definition rem :: "int \<Rightarrow> int \<Rightarrow> int" where
  "rem a b = a - b * quo a b"

subsection \<open>\<open>time.Time\<close> and its two layouts\<close>

text \<open>
  A \<open>time.Time\<close> is modelled by what \<open>Format\<close> reads from it: the civil date of
  \<open>t.Date()\<close>, the clock of \<open>t.Clock()\<close> and the zone offset of \<open>t.Zone()\<close> in seconds
  east of UTC.
\<close>

record Time =
  year :: int
  month :: nat
  day :: nat
  hour :: nat
  minute :: nat
  second :: nat
  offset :: int

definition Time_wf :: "Time \<Rightarrow> bool" where
  "Time_wf t \<longleftrightarrow> 1 \<le> month t \<and> month t \<le> 12 \<and> 1 \<le> day t \<and> day t \<le> 31
     \<and> hour t < 24 \<and> minute t < 60 \<and> second t < 60"

text \<open>The part \<open>2006-01-02T15:04:05\<close> that both layouts start with.\<close>

definition format_date_clock :: "Time \<Rightarrow> string" where
  "format_date_clock t =
     appendInt (year t) 4 @ ''-'' @ appendInt (int (month t)) 2 @ ''-'' @ appendInt (int (day t)) 2
     @ ''T'' @ appendInt (int (hour t)) 2 @ '':'' @ appendInt (int (minute t)) 2
     @ '':'' @ appendInt (int (second t)) 2"

text \<open>
  The zone of \<open>Format\<close>: the offset in whole minutes, its sign, then hours and minutes.
  \<open>colon\<close> is the layout \<open>-07:00\<close> and not \<open>-0700\<close>.
\<close>

definition format_zone :: "bool \<Rightarrow> int \<Rightarrow> string" where
  "format_zone colon off =
     (let zone = quo off 60;
          sign = (if zone < 0 then ''-'' else ''+'');
          zone = (if zone < 0 then - zone else zone)
      in sign @ appendInt (quo zone 60) 2 @ (if colon then '':'' else [])
         @ appendInt (rem zone 60) 2)"

text \<open>
  \<open>when.Format(time.RFC3339)\<close>, the layout \<open>2006-01-02T15:04:05Z07:00\<close>: the zone is
  the letter \<open>Z\<close> at offset 0.
\<close>

definition Format_RFC3339 :: "Time \<Rightarrow> string" where
  "Format_RFC3339 t =
     format_date_clock t @ (if offset t = 0 then ''Z'' else format_zone True (offset t))"

text \<open>\<open>when.Format("2006-01-02T15:04:05-0700")\<close>.\<close>

definition Format_NumTZ :: "Time \<Rightarrow> string" where
  "Format_NumTZ t = format_date_clock t @ format_zone False (offset t)"

text \<open>
  The pattern that the specification gives for the parameter \<open>when\<close>,
  \<open>YYYY-MM-DDThh:mm:ss\<plusminus>hhmm\<close>. In a template, \<open>9\<close> stands for a decimal digit and
  \<open>+\<close> for a sign, \<open>+\<close> or \<open>-\<close>; any other character stands for itself.
\<close>

definition is_digit :: "char \<Rightarrow> bool" where
  "is_digit ch \<longleftrightarrow> 48 \<le> (of_char ch :: nat) \<and> (of_char ch :: nat) \<le> 57"

fun fits :: "string \<Rightarrow> string \<Rightarrow> bool" where
  "fits [] [] = True"
| "fits (p # ps) (ch # s) =
     ((if p = CHR ''9'' then is_digit ch
       else if p = CHR ''+'' then ch = CHR ''+'' \<or> ch = CHR ''-''
       else ch = p) \<and> fits ps s)"
| "fits _ _ = False"

definition when_pattern :: "string \<Rightarrow> bool" where
  "when_pattern s = fits ''9999-99-99T99:99:99+9999'' s"

subsection \<open>\<open>float64\<close> and \<open>time.Duration\<close>\<close>

text \<open>
  A finite \<open>float64\<close> is the rational number it stands for. An operation of the machine
  returns the exact result rounded to the nearest number with a 53-bit significand, ties
  to the even significand: \<open>fl\<close>. The exponent range is left out: the values below lie
  between \<open>2\<^sup>-\<^sup>3\<^sup>6\<close> and \<open>2\<^sup>2\<^sup>8\<close> in magnitude, far from overflow and
  from the subnormal numbers.
\<close>

definition round_half_even :: "rat \<Rightarrow> int" where
  "round_half_even q =
     (let f = \<lfloor>q\<rfloor>; r = q - of_int f
      in if r < 1 / 2 then f else if 1 / 2 < r then f + 1 else if even f then f else f + 1)"

text \<open>For \<open>x > 0\<close>, the exponent \<open>e\<close> with \<open>2\<^sup>e \<le> x < 2\<^sup>e\<^sup>+\<^sup>1\<close>.\<close>

definition binade :: "rat \<Rightarrow> int" where
  "binade x =
     (let (p, q) = quotient_of x; k = bitlen p - bitlen q
      in if 2 powi k \<le> x then k else k - 1)"

definition fl :: "rat \<Rightarrow> rat" where
  "fl x =
     (if x = 0 then 0
      else let u = 2 powi (binade \<bar>x\<bar> - 52) in of_int (round_half_even (x / u)) * u)"

text \<open>\<open>type Duration int64\<close>, a number of nanoseconds.\<close>

type_synonym Duration = "64 word"

definition Minute :: int where
  "Minute = 60 * 1000000000"

text \<open>
  \<open>Duration.Minutes\<close>:
  \<^verbatim>\<open>min := d / Minute; nsec := d % Minute; return float64(min) + float64(nsec)/(60*1e9)\<close>
\<close>

definition Minutes :: "Duration \<Rightarrow> rat" where
  "Minutes d =
     (let min = quo (sint d) Minute; nsec = rem (sint d) Minute
      in fl (fl (of_int min) + fl (fl (of_int nsec) / (60 * 1000000000))))"

text \<open>The conversion \<open>int(x)\<close> of a \<open>float64\<close> drops the fraction.\<close>

definition float_to_int :: "rat \<Rightarrow> int" where
  "float_to_int x = (if 0 \<le> x then \<lfloor>x\<rfloor> else \<lceil>x\<rceil>)"

text \<open>
  \<open>strconv.FormatFloat(x, 'f', 0, 64)\<close>: the sign of \<open>x\<close>, then \<open>x\<close> rounded to a whole
  number from its exact decimal expansion, a tie going to the even digit; no decimal point.
\<close>

definition FormatFloat_f0 :: "rat \<Rightarrow> string" where
  "FormatFloat_f0 x = (if x < 0 then ''-'' else []) @ digits (nat (round_half_even \<bar>x\<bar>))"

subsection \<open>Transport modes\<close>

text \<open>
  \<open>type TransportationType uint8\<close>. The constants are declared as \<open>1<<iota + 1\<close> with
  \<open>iota\<close> running from 0; in Go \<open><<\<close> binds tighter than \<open>+\<close>, so the value is
  \<open>(1 << iota) + 1\<close>.
\<close>

type_synonym TransportationType = "8 word"

definition SuburbanTrain :: TransportationType where
  "SuburbanTrain = push_bit 0 1 + 1"

definition Subway :: TransportationType where
  "Subway = push_bit 1 1 + 1"

definition Tram :: TransportationType where
  "Tram = push_bit 2 1 + 1"

definition Bus :: TransportationType where
  "Bus = push_bit 3 1 + 1"

definition Ferry :: TransportationType where
  "Ferry = push_bit 4 1 + 1"

definition ExpressTrain :: TransportationType where
  "ExpressTrain = push_bit 5 1 + 1"

definition RegionalTrain :: TransportationType where
  "RegionalTrain = push_bit 6 1 + 1"

definition UrbanTransport :: TransportationType where
  "UrbanTransport = SuburbanTrain OR Subway OR Tram OR Bus OR Ferry OR RegionalTrain"

definition AllTransport :: TransportationType where
  "AllTransport = UrbanTransport OR ExpressTrain"

text \<open>Generation B's helper; generation A has the same seven \<open>Set\<close> calls inline.\<close>

definition addTransportTypeParams :: "Values \<Rightarrow> TransportationType \<Rightarrow> Values" where
  "addTransportTypeParams q transportTypes =
     (let q = Values_Set q ''suburban'' (FormatBool (transportTypes AND SuburbanTrain \<noteq> 0));
          q = Values_Set q ''subway'' (FormatBool (transportTypes AND Subway \<noteq> 0));
          q = Values_Set q ''tram'' (FormatBool (transportTypes AND Tram \<noteq> 0));
          q = Values_Set q ''bus'' (FormatBool (transportTypes AND Bus \<noteq> 0));
          q = Values_Set q ''ferry'' (FormatBool (transportTypes AND Ferry \<noteq> 0));
          q = Values_Set q ''express'' (FormatBool (transportTypes AND ExpressTrain \<noteq> 0));
          q = Values_Set q ''regional'' (FormatBool (transportTypes AND RegionalTrain \<noteq> 0))
      in q)"

subsection \<open>The client and \<open>sendRequest\<close>\<close>

text \<open>
  An outgoing request is its method and the URL text handed to \<open>http.NewRequest\<close>; a
  response is its status code and its body.
\<close>

record Request =
  Method :: string
  URL :: string

record Response =
  StatusCode :: nat
  Body :: string

text \<open>
  \<open>type Client struct { endpoint string; c *http.Client }\<close>. The field \<open>c\<close> is the
  transport together with the remote service: what \<open>c.Do(req)\<close> returns.
\<close>

record Client =
  endpoint :: string
  c :: "Request \<Rightarrow> error + Response"

text \<open>
  The world outside the client: \<open>url_error\<close> is the verdict of \<open>http.NewRequest\<close> on a
  URL text (the method is always \<open>GET\<close>, which it accepts), and \<open>sent\<close> lists the
  requests handed to the transport so far.
\<close>

record world =
  url_error :: "string \<Rightarrow> error option"
  sent :: "Request list"

definition http_NewRequest :: "world \<Rightarrow> string \<Rightarrow> string \<Rightarrow> error + Request" where
  "http_NewRequest w method u =
     (case url_error w u of
        Some err \<Rightarrow> Inl err
      | None \<Rightarrow> Inr \<lparr>Method = method, URL = u\<rparr>)"

definition Do :: "Client \<Rightarrow> Request \<Rightarrow> world \<Rightarrow> (error + Response) \<times> world" where
  "Do cl req w = (c cl req, w\<lparr>sent := sent w @ [req]\<rparr>)"

text \<open>\<open>sendRequest\<close> is the same in both generations. It returns \<open>resp.Body\<close>.\<close>

definition sendRequest :: "Client \<Rightarrow> string \<Rightarrow> string \<Rightarrow> world \<Rightarrow> (error + string) \<times> world" where
  "sendRequest cl method url w =
     (case http_NewRequest w method (endpoint cl @ url) of
        Inl err \<Rightarrow> (Inl (Errorf (''failed to create request to '' @ url) err), w)
      | Inr req \<Rightarrow>
          (case Do cl req w of
             (Inl err, w') \<Rightarrow> (Inl (Errorf (''failed to execute request to '' @ url) err), w')
           | (Inr resp, w') \<Rightarrow> (Inr (Body resp), w')))"

definition http_MethodGet :: string where
  "http_MethodGet = ''GET''"

subsection \<open>Departures and arrivals\<close>

text \<open>
  \<open>type Line struct { Name, Product string }\<close>; the fields carry the prefix \<open>Line_\<close>,
  \<open>Name\<close> being a field of \<open>Location\<close> as well.
\<close>

record Line =
  Line_Name :: string
  Line_Product :: string

text \<open>Generation B's \<open>Departure\<close>: the platforms are strings.\<close>

record Departure =
  Direction :: string
  When :: Time
  PlannedWhen :: Time
  Delay :: int
  Platform :: string
  PlannedPlatform :: string
  Line :: Line

text \<open>
  The element of \<open>res.Arrivals\<close>: \<open>struct { Departure; Provenance string }\<close>. The embedded
  struct is the parent record; \<open>a.Departure\<close> is \<open>Departure.truncate a\<close>.
\<close>

record arrival = Departure +
  Provenance :: string

text \<open>
  \<open>json.NewDecoder(data).Decode(&res)\<close> is a parameter \<open>decode\<close> of each operation: from
  the body to an error or the decoded value.
\<close>

type_synonym 'a decoder = "string \<Rightarrow> error + 'a"

text \<open>
  Generation A builds the query of \<open>Departures\<close> and of \<open>Arrivals\<close> with the same eleven
  \<open>Set\<close> calls.
\<close>

definition query_A :: "Time \<Rightarrow> Duration \<Rightarrow> TransportationType \<Rightarrow> Values" where
  "query_A whn duration transportTypes =
     (let q = [];
          q = Values_Set q ''when'' (Format_RFC3339 whn);
          q = Values_Set q ''duration'' (FormatFloat_f0 (Minutes duration));
          q = Values_Set q ''pretty'' ''false'';
          q = Values_Set q ''suburban'' (FormatBool (transportTypes AND SuburbanTrain \<noteq> 0));
          q = Values_Set q ''subway'' (FormatBool (transportTypes AND Subway \<noteq> 0));
          q = Values_Set q ''tram'' (FormatBool (transportTypes AND Tram \<noteq> 0));
          q = Values_Set q ''bus'' (FormatBool (transportTypes AND Bus \<noteq> 0));
          q = Values_Set q ''ferry'' (FormatBool (transportTypes AND Ferry \<noteq> 0));
          q = Values_Set q ''express'' (FormatBool (transportTypes AND ExpressTrain \<noteq> 0));
          q = Values_Set q ''regional'' (FormatBool (transportTypes AND RegionalTrain \<noteq> 0))
      in q)"

text \<open>Generation A: the query \<open>q\<close> is built and the request path is written without it.\<close>

definition Departures_A ::
  "'d list decoder \<Rightarrow> Client \<Rightarrow> string \<Rightarrow> Time \<Rightarrow> Duration \<Rightarrow> TransportationType
    \<Rightarrow> world \<Rightarrow> (error + 'd list) \<times> world" where
  "Departures_A decode cl stopID whn duration transportTypes w =
     (let q = query_A whn duration transportTypes
      in case sendRequest cl http_MethodGet (''/stops/'' @ stopID @ ''/departures'') w of
           (Inl err, w') \<Rightarrow> (Inl (Errorf (''failed to retrieve departures for '' @ stopID) err), w')
         | (Inr data, w') \<Rightarrow>
             (case decode data of
                Inl err \<Rightarrow> (Inl (Errorf ''failed to decode response'' err), w')
              | Inr res \<Rightarrow> (Inr res, w')))"

definition Arrivals_A ::
  "'d list decoder \<Rightarrow> Client \<Rightarrow> string \<Rightarrow> Time \<Rightarrow> Duration \<Rightarrow> TransportationType
    \<Rightarrow> world \<Rightarrow> (error + 'd list) \<times> world" where
  "Arrivals_A decode cl stopID whn duration transportTypes w =
     (let q = query_A whn duration transportTypes
      in case sendRequest cl http_MethodGet (''/stops/'' @ stopID @ ''/arrivals'') w of
           (Inl err, w') \<Rightarrow> (Inl (Errorf (''failed to retrieve arrivals for '' @ stopID) err), w')
         | (Inr data, w') \<Rightarrow>
             (case decode data of
                Inl err \<Rightarrow> (Inl (Errorf ''failed to decode response'' err), w')
              | Inr res \<Rightarrow> (Inr res, w')))"

text \<open>Generation B: the query of both operations.\<close>

definition query_B :: "Time \<Rightarrow> Duration \<Rightarrow> TransportationType \<Rightarrow> Values" where
  "query_B whn duration transportTypes =
     (let q = addTransportTypeParams [] transportTypes;
          q = Values_Set q ''when'' (Format_NumTZ whn);
          q = Values_Set q ''duration'' (Itoa (float_to_int (Minutes duration)));
          q = Values_Set q ''pretty'' ''false''
      in q)"

definition Departures_B ::
  "Departure list decoder \<Rightarrow> Client \<Rightarrow> string \<Rightarrow> Time \<Rightarrow> Duration \<Rightarrow> TransportationType
    \<Rightarrow> world \<Rightarrow> (error + Departure list) \<times> world" where
  "Departures_B decode cl stopID whn duration transportTypes w =
     (let q = query_B whn duration transportTypes
      in case sendRequest cl http_MethodGet
                (''/stops/'' @ stopID @ ''/departures?'' @ Values_Encode q) w of
           (Inl err, w') \<Rightarrow> (Inl (Errorf (''failed to retrieve departures for '' @ stopID) err), w')
         | (Inr data, w') \<Rightarrow>
             (case decode data of
                Inl err \<Rightarrow> (Inl (Errorf ''failed to decode response'' err), w')
              | Inr res \<Rightarrow> (Inr res, w')))"

text \<open>
  The loop of \<open>Arrivals\<close> over \<open>res.Arrivals\<close>; \<open>arrivals\<close> is the slice built so far.
\<close>

fun arrivals_loop :: "Departure list \<Rightarrow> arrival list \<Rightarrow> Departure list" where
  "arrivals_loop arrivals [] = arrivals"
| "arrivals_loop arrivals (a # rest) =
     (let a = (if Direction a = [] then a\<lparr>Direction := Provenance a\<rparr> else a)
      in arrivals_loop (arrivals @ [Departure.truncate a]) rest)"

definition Arrivals_B ::
  "arrival list decoder \<Rightarrow> Client \<Rightarrow> string \<Rightarrow> Time \<Rightarrow> Duration \<Rightarrow> TransportationType
    \<Rightarrow> world \<Rightarrow> (error + Departure list) \<times> world" where
  "Arrivals_B decode cl stopID whn duration transportTypes w =
     (let q = query_B whn duration transportTypes
      in case sendRequest cl http_MethodGet
                (''/stops/'' @ stopID @ ''/arrivals?'' @ Values_Encode q) w of
           (Inl err, w') \<Rightarrow> (Inl (Errorf (''failed to retrieve arrivals for '' @ stopID) err), w')
         | (Inr data, w') \<Rightarrow>
             (case decode data of
                Inl err \<Rightarrow> (Inl (Errorf ''failed to decode response'' err), w')
              | Inr res \<Rightarrow> (Inr (arrivals_loop [] res), w')))"

subsection \<open>\<open>encoding/json\<close> on the location structs\<close>

text \<open>
  A \<open>float64\<close> that may be infinite or not a number. (\<open>Minutes\<close> above is always finite.)
\<close>

datatype float64 = Finite rat | PosInf | NegInf | NaN

text \<open>
  The bytes of a JSON document are modelled by the value they spell. A number is the
  \<open>float64\<close> it was written from: \<open>encoding/json\<close> writes a finite \<open>float64\<close> with the
  digits that read back as the same number.
\<close>

datatype json =
  JNull
  | JBool bool
  | JNumber rat
  | JString string
  | JArray "json list"
  | JObject "(string \<times> json) list"

definition json_get :: "json \<Rightarrow> string \<Rightarrow> json option" where
  "json_get j k = (case j of JObject ms \<Rightarrow> map_of ms k | _ \<Rightarrow> None)"

text \<open>
  \<open>utf8.DecodeRuneInString\<close>: the number of bytes of the well-formed UTF-8 sequence at
  the head of the string, or 0 where the head is not one.
\<close>

definition is_cont :: "string \<Rightarrow> nat \<Rightarrow> nat \<Rightarrow> nat \<Rightarrow> bool" where
  "is_cont s i lo hi \<longleftrightarrow> i < length s \<and> lo \<le> (of_char (s ! i) :: nat) \<and> (of_char (s ! i) :: nat) \<le> hi"

definition rune_len :: "string \<Rightarrow> nat" where
  "rune_len s =
     (case s of
        [] \<Rightarrow> 0
      | ch # _ \<Rightarrow>
          (let b = (of_char ch :: nat)
           in if b < 128 then 1
              else if 194 \<le> b \<and> b \<le> 223 then (if is_cont s 1 128 191 then 2 else 0)
              else if 224 \<le> b \<and> b \<le> 239 then
                (if is_cont s 1 (if b = 224 then 160 else 128) (if b = 237 then 159 else 191)
                    \<and> is_cont s 2 128 191 then 3 else 0)
              else if 240 \<le> b \<and> b \<le> 244 then
                (if is_cont s 1 (if b = 240 then 144 else 128) (if b = 244 then 143 else 191)
                    \<and> is_cont s 2 128 191 \<and> is_cont s 3 128 191 then 4 else 0)
              else 0))"

text \<open>
  A string value is written coerced to valid UTF-8: a byte that starts no well-formed
  sequence becomes U+FFFD, the bytes \<open>EF BF BD\<close>.
\<close>

function ToValidUTF8 :: "string \<Rightarrow> string" where
  "ToValidUTF8 s =
     (if s = [] then []
      else if rune_len s = 0 then [char_of (239 :: nat), char_of (191 :: nat), char_of (189 :: nat)] @ ToValidUTF8 (tl s)
      else take (rune_len s) s @ ToValidUTF8 (drop (rune_len s) s))"
  by pat_completeness auto
termination
  by (relation "measure length") auto

declare ToValidUTF8.simps [simp del]

text \<open>
  The struct \<open>hafasLocation\<close> and the anonymous struct its field \<open>Location\<close> points to.
  A nil pointer is \<open>None\<close>. The tags \<open>json:",omitempty"\<close> are on \<open>Address\<close>,
  \<open>Location\<close>, \<open>Latitude\<close>, \<open>Longitude\<close> and \<open>POI\<close>.
\<close>

record hafasCoords =
  cType :: string
  cLatitude :: float64
  cLongitude :: float64

record hafasLocation =
  hType :: string
  hID :: string
  hName :: string
  hAddress :: string
  hLocation :: "hafasCoords option"
  hLatitude :: float64
  hLongitude :: float64
  hPOI :: bool

text \<open>\<open>json.Marshal\<close> refuses a \<open>float64\<close> that is infinite or not a number.\<close>

definition marshal_float :: "float64 \<Rightarrow> error + json" where
  "marshal_float f =
     (case f of Finite r \<Rightarrow> Inr (JNumber r) | _ \<Rightarrow> Inl (LibError ''json: unsupported value''))"

definition marshal_string :: "string \<Rightarrow> json" where
  "marshal_string s = JString (ToValidUTF8 s)"

text \<open>
  The members of an object under construction: a field is appended, or skipped where
  \<open>omitempty\<close> finds it empty; the first error stays.
\<close>

definition add_member ::
  "bool \<Rightarrow> string \<Rightarrow> error + json \<Rightarrow> error + (string \<times> json) list \<Rightarrow> error + (string \<times> json) list" where
  "add_member omit k v ms =
     (case ms of
        Inl err \<Rightarrow> Inl err
      | Inr xs \<Rightarrow>
          (if omit then Inr xs
           else case v of Inl err \<Rightarrow> Inl err | Inr j \<Rightarrow> Inr (xs @ [(k, j)])))"

definition to_object :: "error + (string \<times> json) list \<Rightarrow> error + json" where
  "to_object ms = (case ms of Inl err \<Rightarrow> Inl err | Inr xs \<Rightarrow> Inr (JObject xs))"

definition marshal_coords :: "hafasCoords \<Rightarrow> error + json" where
  "marshal_coords s =
     to_object
       (add_member False ''Longitude'' (marshal_float (cLongitude s))
       (add_member False ''Latitude'' (marshal_float (cLatitude s))
       (add_member False ''Type'' (Inr (marshal_string (cType s)))
       (Inr []))))"

definition json_Marshal :: "hafasLocation \<Rightarrow> error + json" where
  "json_Marshal h =
     to_object
       (add_member (\<not> hPOI h) ''POI'' (Inr (JBool (hPOI h)))
       (add_member (hLongitude h = Finite 0) ''Longitude'' (marshal_float (hLongitude h))
       (add_member (hLatitude h = Finite 0) ''Latitude'' (marshal_float (hLatitude h))
       (add_member (hLocation h = None) ''Location''
          (case hLocation h of None \<Rightarrow> Inr JNull | Some s \<Rightarrow> marshal_coords s)
       (add_member (hAddress h = []) ''Address'' (Inr (marshal_string (hAddress h)))
       (add_member False ''Name'' (Inr (marshal_string (hName h)))
       (add_member False ''ID'' (Inr (marshal_string (hID h)))
       (add_member False ''Type'' (Inr (marshal_string (hType h)))
       (Inr [])))))))))"

text \<open>
  \<open>json.Unmarshal\<close> into a struct: the members of the object in their order, each
  assigned to the field whose name it matches without regard to (ASCII) case; a member
  that matches no field is skipped, \<open>null\<close> leaves a field as it is, and a value of the
  wrong kind is an error (the first one is returned once the object is read).
\<close>

definition to_lower :: "char \<Rightarrow> char" where
  "to_lower ch =
     (let n = (of_char ch :: nat) in if 65 \<le> n \<and> n \<le> 90 then char_of (n + 32) else ch)"

definition key_is :: "string \<Rightarrow> string \<Rightarrow> bool" where
  "key_is k name \<longleftrightarrow> map to_lower k = map to_lower name"

definition type_error :: error where
  "type_error = LibError ''json: cannot unmarshal value into Go struct field''"

definition note_error :: "error option \<Rightarrow> error option" where
  "note_error e = (case e of None \<Rightarrow> Some type_error | Some err \<Rightarrow> Some err)"

definition set_string ::
  "(string \<Rightarrow> 'a \<Rightarrow> 'a) \<Rightarrow> json \<Rightarrow> 'a \<times> error option \<Rightarrow> 'a \<times> error option" where
  "set_string upd v st =
     (case v of
        JString s \<Rightarrow> (upd s (fst st), snd st)
      | JNull \<Rightarrow> st
      | _ \<Rightarrow> (fst st, note_error (snd st)))"

definition set_float ::
  "(float64 \<Rightarrow> 'a \<Rightarrow> 'a) \<Rightarrow> json \<Rightarrow> 'a \<times> error option \<Rightarrow> 'a \<times> error option" where
  "set_float upd v st =
     (case v of
        JNumber r \<Rightarrow> (upd (Finite r) (fst st), snd st)
      | JNull \<Rightarrow> st
      | _ \<Rightarrow> (fst st, note_error (snd st)))"

definition set_bool ::
  "(bool \<Rightarrow> 'a \<Rightarrow> 'a) \<Rightarrow> json \<Rightarrow> 'a \<times> error option \<Rightarrow> 'a \<times> error option" where
  "set_bool upd v st =
     (case v of
        JBool b \<Rightarrow> (upd b (fst st), snd st)
      | JNull \<Rightarrow> st
      | _ \<Rightarrow> (fst st, note_error (snd st)))"

definition coords_member ::
  "hafasCoords \<times> error option \<Rightarrow> string \<times> json \<Rightarrow> hafasCoords \<times> error option" where
  "coords_member st m =
     (let k = fst m; v = snd m
      in if key_is k ''Type'' then set_string (\<lambda>x s. s\<lparr>cType := x\<rparr>) v st
         else if key_is k ''Latitude'' then set_float (\<lambda>x s. s\<lparr>cLatitude := x\<rparr>) v st
         else if key_is k ''Longitude'' then set_float (\<lambda>x s. s\<lparr>cLongitude := x\<rparr>) v st
         else st)"

definition zero_coords :: hafasCoords where
  "zero_coords = \<lparr>cType = [], cLatitude = Finite 0, cLongitude = Finite 0\<rparr>"

definition set_coords :: "json \<Rightarrow> hafasLocation \<times> error option \<Rightarrow> hafasLocation \<times> error option" where
  "set_coords v st =
     (case v of
        JObject ms \<Rightarrow>
          (let s0 = (case hLocation (fst st) of None \<Rightarrow> zero_coords | Some s \<Rightarrow> s);
               r = foldl coords_member (s0, snd st) ms
           in ((fst st)\<lparr>hLocation := Some (fst r)\<rparr>, snd r))
      | JNull \<Rightarrow> ((fst st)\<lparr>hLocation := None\<rparr>, snd st)
      | _ \<Rightarrow> (fst st, note_error (snd st)))"

definition location_member ::
  "hafasLocation \<times> error option \<Rightarrow> string \<times> json \<Rightarrow> hafasLocation \<times> error option" where
  "location_member st m =
     (let k = fst m; v = snd m
      in if key_is k ''Type'' then set_string (\<lambda>x h. h\<lparr>hType := x\<rparr>) v st
         else if key_is k ''ID'' then set_string (\<lambda>x h. h\<lparr>hID := x\<rparr>) v st
         else if key_is k ''Name'' then set_string (\<lambda>x h. h\<lparr>hName := x\<rparr>) v st
         else if key_is k ''Address'' then set_string (\<lambda>x h. h\<lparr>hAddress := x\<rparr>) v st
         else if key_is k ''Location'' then set_coords v st
         else if key_is k ''Latitude'' then set_float (\<lambda>x h. h\<lparr>hLatitude := x\<rparr>) v st
         else if key_is k ''Longitude'' then set_float (\<lambda>x h. h\<lparr>hLongitude := x\<rparr>) v st
         else if key_is k ''POI'' then set_bool (\<lambda>x h. h\<lparr>hPOI := x\<rparr>) v st
         else st)"

definition zero_hafasLocation :: hafasLocation where
  "zero_hafasLocation =
     \<lparr>hType = [], hID = [], hName = [], hAddress = [], hLocation = None,
      hLatitude = Finite 0, hLongitude = Finite 0, hPOI = False\<rparr>"

definition json_Unmarshal :: "json \<Rightarrow> error + hafasLocation" where
  "json_Unmarshal data =
     (case data of
        JObject ms \<Rightarrow>
          (case foldl location_member (zero_hafasLocation, None) ms of
             (h, None) \<Rightarrow> Inr h
           | (h, Some err) \<Rightarrow> Inl err)
      | JNull \<Rightarrow> Inr zero_hafasLocation
      | _ \<Rightarrow> Inl type_error)"

subsection \<open>Generation B's \<open>Location\<close>\<close>

record Location =
  Type :: string
  ID :: string
  Name :: string
  Address :: string
  Latitude :: float64
  Longitude :: float64
  Distance :: int

definition MarshalJSON :: "Location \<Rightarrow> error + json" where
  "MarshalJSON loc =
     (let hLoc = zero_hafasLocation
            \<lparr>hType := Type loc, hID := ID loc, hName := Name loc, hAddress := Address loc,
             hPOI := (Type loc = ''poi'')\<rparr>;
          hLoc = (if Type loc = ''stop''
                  then hLoc\<lparr>hLocation :=
                         Some \<lparr>cType = ''location'', cLatitude = Latitude loc,
                               cLongitude = Longitude loc\<rparr>\<rparr>
                  else hLoc)
      in json_Marshal hLoc)"

definition UnmarshalJSON :: "json \<Rightarrow> error + Location" where
  "UnmarshalJSON data =
     (case json_Unmarshal data of
        Inl err \<Rightarrow> Inl (Errorf ''failed to unmarshal location'' err)
      | Inr hLoc \<Rightarrow>
          (let loc = \<lparr>Type = hType hLoc, ID = hID hLoc, Name = hName hLoc,
                      Address = hAddress hLoc, Latitude = hLatitude hLoc,
                      Longitude = hLongitude hLoc, Distance = 0\<rparr>;
               loc = (case hLocation hLoc of
                        Some s \<Rightarrow> loc\<lparr>Latitude := cLatitude s, Longitude := cLongitude s\<rparr>
                      | None \<Rightarrow> loc)
           in Inr loc))"

subsection \<open>Searching locations and stops nearby\<close>

text \<open>
  \<open>type LocationType uint8\<close>; \<open>LocationTypeStop\<close> is \<open>1 << iota\<close> on the second line of
  the block, where \<open>iota\<close> is 1.
\<close>

type_synonym LocationType = "8 word"

definition LocationTypeUnknown :: LocationType where
  "LocationTypeUnknown = 0"









subsection \<open>Inputs for the examples\<close>

definition noon :: Time where
  "noon = \<lparr>year = 2024, month = 3, day = 9, hour = 12, minute = 0, second = 0, offset = 3600\<rparr>"

definition noon_utc :: Time where
  "noon_utc = \<lparr>year = 2024, month = 3, day = 9, hour = 12, minute = 0, second = 0, offset = 0\<rparr>"

definition fresh :: world where
  "fresh = \<lparr>url_error = (\<lambda>u. None), sent = []\<rparr>"

text \<open>A remote service that answers every request with status 500 and the body \<open>[]\<close>.\<close>

definition failing_response :: Response where
  "failing_response = \<lparr>StatusCode = 500, Body = ''[]''\<rparr>"

definition failing_service :: Client where
  "failing_service = \<lparr>endpoint = ''https://v6.vbb.transport.rest'', c = (\<lambda>req. Inr failing_response)\<rparr>"

text \<open>A decoder that reads the body \<open>[]\<close> as the empty sequence and refuses anything else.\<close>

definition decode_empty :: "'a list decoder" where
  "decode_empty body = (if body = ''[]'' then Inr [] else Inl (LibError ''invalid character''))"

text \<open>Two arrival records, the first without a direction.\<close>

definition line_S7 :: Line where
  "line_S7 = \<lparr>Line_Name = ''S7'', Line_Product = ''suburban''\<rparr>"

definition arrival_1 :: arrival where
  "arrival_1 = \<lparr>Direction = [], When = noon, PlannedWhen = noon, Delay = 0, Platform = ''3'',
                 PlannedPlatform = ''3'', Line = line_S7, Provenance = ''Platform 3 area''\<rparr>"

definition arrival_2 :: arrival where
  "arrival_2 = \<lparr>Direction = ''Potsdam'', When = noon, PlannedWhen = noon_utc, Delay = 60,
                 Platform = ''4'', PlannedPlatform = ''5'', Line = line_S7,
                 Provenance = ''Ahrensfelde''\<rparr>"

definition arrivals_service :: Client where
  "arrivals_service =
     \<lparr>endpoint = ''https://v6.vbb.transport.rest'',
      c = (\<lambda>req. Inr \<lparr>StatusCode = 200, Body = ''two arrivals''\<rparr>)\<rparr>"

definition decode_arrivals :: "arrival list decoder" where
  "decode_arrivals body =
     (if body = ''two arrivals'' then Inr [arrival_1, arrival_2]
      else Inl (LibError ''invalid character''))"

text \<open>Locations: a stop, the stop with a latitude that is not a number, an address, a point of interest.\<close>

definition stop_alex :: Location where
  "stop_alex = \<lparr>Type = ''stop'', ID = ''900100003'', Name = ''S+U Alexanderplatz'', Address = [],
                 Latitude = Finite (105043 / 2000), Longitude = Finite (13411 / 1000), Distance = 120\<rparr>"

definition stop_nan :: Location where
  "stop_nan = stop_alex\<lparr>Latitude := NaN\<rparr>"

definition address_loc :: Location where
  "address_loc = \<lparr>Type = ''address'', ID = [], Name = ''Alexanderplatz 1'', Address = ''Alexanderplatz 1'',
                   Latitude = Finite (105043 / 2000), Longitude = Finite (13411 / 1000), Distance = 0\<rparr>"

definition poi_museum :: Location where
  "poi_museum = \<lparr>Type = ''poi'', ID = ''900980709'', Name = ''Berlin, Pergamonmuseum'', Address = [],
                  Latitude = Finite (52521 / 1000), Longitude = Finite (13397 / 1000), Distance = 0\<rparr>"

section \<open>Properties\<close>

lemma transport_constants:
  "SuburbanTrain = 2" "Subway = 3" "Tram = 5" "Bus = 9" "Ferry = 17"
  "ExpressTrain = 33" "RegionalTrain = 65" "UrbanTransport = 95" "AllTransport = 127"
  by (simp_all add: SuburbanTrain_def Subway_def Tram_def Bus_def Ferry_def
      ExpressTrain_def RegionalTrain_def UrbanTransport_def AllTransport_def)

subsection \<open>What \<open>sendRequest\<close> hands to the transport\<close>

lemma sendRequest_sent:
  "sent (snd (sendRequest cl method url w)) =
     sent w @ (case url_error w (endpoint cl @ url) of
                 None \<Rightarrow> [\<lparr>Method = method, URL = endpoint cl @ url\<rparr>]
               | Some err \<Rightarrow> [])"
  by (simp add: sendRequest_def http_NewRequest_def Do_def split: option.split sum.split)

lemma sendRequest_result:
  "fst (sendRequest cl method url w) =
     (case url_error w (endpoint cl @ url) of
        Some err \<Rightarrow> Inl (Errorf (''failed to create request to '' @ url) err)
      | None \<Rightarrow>
          (case c cl \<lparr>Method = method, URL = endpoint cl @ url\<rparr> of
             Inl err \<Rightarrow> Inl (Errorf (''failed to execute request to '' @ url) err)
           | Inr resp \<Rightarrow> Inr (Body resp)))"
  by (simp add: sendRequest_def http_NewRequest_def Do_def split: option.split sum.split)

lemma Departures_A_sent:
  "sent (snd (Departures_A decode cl stopID whn duration transportTypes w)) =
     sent (snd (sendRequest cl http_MethodGet (''/stops/'' @ stopID @ ''/departures'') w))"
  by (simp add: Departures_A_def Let_def split: prod.split sum.split)

lemma Arrivals_A_sent:
  "sent (snd (Arrivals_A decode cl stopID whn duration transportTypes w)) =
     sent (snd (sendRequest cl http_MethodGet (''/stops/'' @ stopID @ ''/arrivals'') w))"
  by (simp add: Arrivals_A_def Let_def split: prod.split sum.split)

lemma Departures_B_sent:
  "sent (snd (Departures_B decode cl stopID whn duration transportTypes w)) =
     sent (snd (sendRequest cl http_MethodGet
       (''/stops/'' @ stopID @ ''/departures?'' @ Values_Encode (query_B whn duration transportTypes)) w))"
  by (simp add: Departures_B_def Let_def split: prod.split sum.split)

lemma Arrivals_B_sent:
  "sent (snd (Arrivals_B decode cl stopID whn duration transportTypes w)) =
     sent (snd (sendRequest cl http_MethodGet
       (''/stops/'' @ stopID @ ''/arrivals?'' @ Values_Encode (query_B whn duration transportTypes)) w))"
  by (simp add: Arrivals_B_def Let_def split: prod.split sum.split)

lemma sent_A:
  "sent (snd (Departures_A decode cl stopID whn duration transportTypes w)) =
     sent w @ (case url_error w (endpoint cl @ ''/stops/'' @ stopID @ ''/departures'') of
                 None \<Rightarrow> [\<lparr>Method = ''GET'', URL = endpoint cl @ ''/stops/'' @ stopID @ ''/departures''\<rparr>]
               | Some err \<Rightarrow> [])"
  "sent (snd (Arrivals_A decode' cl stopID whn duration transportTypes w)) =
     sent w @ (case url_error w (endpoint cl @ ''/stops/'' @ stopID @ ''/arrivals'') of
                 None \<Rightarrow> [\<lparr>Method = ''GET'', URL = endpoint cl @ ''/stops/'' @ stopID @ ''/arrivals''\<rparr>]
               | Some err \<Rightarrow> [])"
  by (simp_all add: Departures_A_sent Arrivals_A_sent sendRequest_sent http_MethodGet_def
      split: option.split)

lemma sent_B:
  "sent (snd (Departures_B decode cl stopID whn duration transportTypes w)) =
     sent w @ (case url_error w (endpoint cl @ ''/stops/'' @ stopID @ ''/departures?''
                                   @ Values_Encode (query_B whn duration transportTypes)) of
                 None \<Rightarrow> [\<lparr>Method = ''GET'',
                            URL = endpoint cl @ ''/stops/'' @ stopID @ ''/departures?''
                                    @ Values_Encode (query_B whn duration transportTypes)\<rparr>]
               | Some err \<Rightarrow> [])"
  "sent (snd (Arrivals_B decode' cl stopID whn duration transportTypes w)) =
     sent w @ (case url_error w (endpoint cl @ ''/stops/'' @ stopID @ ''/arrivals?''
                                   @ Values_Encode (query_B whn duration transportTypes)) of
                 None \<Rightarrow> [\<lparr>Method = ''GET'',
                            URL = endpoint cl @ ''/stops/'' @ stopID @ ''/arrivals?''
                                    @ Values_Encode (query_B whn duration transportTypes)\<rparr>]
               | Some err \<Rightarrow> [])"
  by (simp_all add: Departures_B_sent Arrivals_B_sent sendRequest_sent http_MethodGet_def
      split: option.split)

lemma query_in_stopID:
  "map (RawQuery \<circ> URL)
     (sent (snd (Departures_B decode_empty failing_service ''900?x'' noon 600000000000
                   AllTransport fresh))) =
     [''x/departures?'' @ Values_Encode (query_B noon 600000000000 AllTransport)]"
  by code_simp

lemma fragment_in_stopID:
  "map (RawQuery \<circ> URL)
     (sent (snd (Departures_B decode_empty failing_service ''900#x'' noon 600000000000
                   AllTransport fresh))) = [[]]"
  by code_simp

lemma plain_stopID:
  "map (RawQuery \<circ> URL)
     (sent (snd (Departures_B decode_empty failing_service ''900'' noon 600000000000
                   AllTransport fresh))) =
     [Values_Encode (query_B noon 600000000000 AllTransport)]"
  by code_simp

text \<open>
  Claim C1. For every value of the transport mode bitset the operations set the seven mode
  parameters, each to \<open>true\<close> iff its mode is a member of the bitset; the union
  \<open>UrbanTransport\<close> gives \<open>express=false\<close>. The code does not do so: the seven constants
  are 2, 3, 5, 9, 17, 33 and 65, all but the first with bit 0 set, \<open>UrbanTransport\<close> is
  95, and \<open>95 AND 33\<close> is 1. Both generations set \<open>express=true\<close> for
  \<open>UrbanTransport\<close>.
\<close>

theorem UrbanTransport_sets_express_true:
  "map_of (addTransportTypeParams [] UrbanTransport) ''express'' = Some [''true'']
   \<and> map_of (query_B whn duration UrbanTransport) ''express'' = Some [''true'']
   \<and> map_of (query_A whn duration UrbanTransport) ''express'' = Some [''true'']"
  by (simp add: addTransportTypeParams_def query_A_def query_B_def Values_Set_def
      FormatBool_def transport_constants)

text \<open>
  Claim C3. In generation A, \<open>Departures\<close> and \<open>Arrivals\<close> build the query and never
  append it: whatever the inputs, the one request that reaches the transport has the URL
  \<open>endpoint + "/stops/" + stopID + "/departures"\<close> (or \<open>"/arrivals"\<close>) and nothing after
  it; where \<open>http.NewRequest\<close> refuses that URL, no request is sent at all.
\<close>

theorem generation_A_sends_no_query:
  "sent (snd (Departures_A decode cl stopID whn duration transportTypes w)) =
     sent w @ (case url_error w (endpoint cl @ ''/stops/'' @ stopID @ ''/departures'') of
                 None \<Rightarrow> [\<lparr>Method = ''GET'', URL = endpoint cl @ ''/stops/'' @ stopID @ ''/departures''\<rparr>]
               | Some err \<Rightarrow> [])
   \<and> sent (snd (Arrivals_A decode' cl stopID whn duration transportTypes w)) =
     sent w @ (case url_error w (endpoint cl @ ''/stops/'' @ stopID @ ''/arrivals'') of
                 None \<Rightarrow> [\<lparr>Method = ''GET'', URL = endpoint cl @ ''/stops/'' @ stopID @ ''/arrivals''\<rparr>]
               | Some err \<Rightarrow> [])"
  by (intro conjI sent_A)

text \<open>
  Claim C10. The stop identifier goes into the request URL as it is, by concatenation and
  with no escaping, in both operations of both generations. A \<open>?\<close> or a \<open>#\<close> in it
  therefore changes what the URL means: for the stop \<open>900?x\<close> the query of the request
  starts inside the identifier, and for \<open>900#x\<close> the request has no query left, while
  for \<open>900\<close> the query is the encoded parameters.
\<close>

theorem stopID_is_spliced_unescaped:
  "sent (snd (Departures_B decode1 cl stopID whn duration transportTypes w)) =
     sent w @ (case url_error w (endpoint cl @ ''/stops/'' @ stopID @ ''/departures?''
                                   @ Values_Encode (query_B whn duration transportTypes)) of
                 None \<Rightarrow> [\<lparr>Method = ''GET'',
                            URL = endpoint cl @ ''/stops/'' @ stopID @ ''/departures?''
                                    @ Values_Encode (query_B whn duration transportTypes)\<rparr>]
               | Some err \<Rightarrow> [])
   \<and> sent (snd (Arrivals_B decode2 cl stopID whn duration transportTypes w)) =
     sent w @ (case url_error w (endpoint cl @ ''/stops/'' @ stopID @ ''/arrivals?''
                                   @ Values_Encode (query_B whn duration transportTypes)) of
                 None \<Rightarrow> [\<lparr>Method = ''GET'',
                            URL = endpoint cl @ ''/stops/'' @ stopID @ ''/arrivals?''
                                    @ Values_Encode (query_B whn duration transportTypes)\<rparr>]
               | Some err \<Rightarrow> [])
   \<and> sent (snd (Departures_A decode3 cl stopID whn duration transportTypes w)) =
     sent w @ (case url_error w (endpoint cl @ ''/stops/'' @ stopID @ ''/departures'') of
                 None \<Rightarrow> [\<lparr>Method = ''GET'', URL = endpoint cl @ ''/stops/'' @ stopID @ ''/departures''\<rparr>]
               | Some err \<Rightarrow> [])
   \<and> sent (snd (Arrivals_A decode4 cl stopID whn duration transportTypes w)) =
     sent w @ (case url_error w (endpoint cl @ ''/stops/'' @ stopID @ ''/arrivals'') of
                 None \<Rightarrow> [\<lparr>Method = ''GET'', URL = endpoint cl @ ''/stops/'' @ stopID @ ''/arrivals''\<rparr>]
               | Some err \<Rightarrow> [])
   \<and> map (RawQuery \<circ> URL)
        (sent (snd (Departures_B decode_empty failing_service ''900?x'' noon 600000000000
                      AllTransport fresh))) =
        [''x/departures?'' @ Values_Encode (query_B noon 600000000000 AllTransport)]
   \<and> map (RawQuery \<circ> URL)
        (sent (snd (Departures_B decode_empty failing_service ''900#x'' noon 600000000000
                      AllTransport fresh))) = [[]]
   \<and> map (RawQuery \<circ> URL)
        (sent (snd (Departures_B decode_empty failing_service ''900'' noon 600000000000
                      AllTransport fresh))) =
        [Values_Encode (query_B noon 600000000000 AllTransport)]"
  by (intro conjI sent_A sent_B query_in_stopID fragment_in_stopID plain_stopID)

subsection \<open>The status of the response\<close>







subsection \<open>Arrivals\<close>

lemma arrivals_loop_acc:
  "arrivals_loop acc res =
     acc @ map (\<lambda>a. Departure.truncate (if Direction a = [] then a\<lparr>Direction := Provenance a\<rparr> else a)) res"
  by (induction res arbitrary: acc) (simp_all add: Let_def)

lemma arrivals_loop_length: "length (arrivals_loop [] res) = length res"
  by (simp add: arrivals_loop_acc)

lemma arrivals_loop_Direction:
  "i < length res \<Longrightarrow>
     Direction (arrivals_loop [] res ! i) =
       (if Direction (res ! i) = [] then Provenance (res ! i) else Direction (res ! i))"
  by (simp add: arrivals_loop_acc Departure.truncate_def)

lemma arrivals_loop_frame:
  "i < length res \<Longrightarrow>
     When (arrivals_loop [] res ! i) = When (res ! i)
     \<and> PlannedWhen (arrivals_loop [] res ! i) = PlannedWhen (res ! i)
     \<and> Delay (arrivals_loop [] res ! i) = Delay (res ! i)
     \<and> Platform (arrivals_loop [] res ! i) = Platform (res ! i)
     \<and> PlannedPlatform (arrivals_loop [] res ! i) = PlannedPlatform (res ! i)
     \<and> Line (arrivals_loop [] res ! i) = Line (res ! i)"
  by (simp add: arrivals_loop_acc Departure.truncate_def)

lemma Arrivals_B_Inr:
  assumes "fst (Arrivals_B decode cl stopID whn duration transportTypes w) = Inr ds"
  shows "\<exists>resp res.
           c cl (last (sent (snd (Arrivals_B decode cl stopID whn duration transportTypes w)))) = Inr resp
           \<and> decode (Body resp) = Inr res \<and> ds = arrivals_loop [] res"
  using assms
  by (auto simp: Arrivals_B_def Let_def sendRequest_def http_NewRequest_def Do_def
      split: prod.splits sum.splits option.splits)

lemma two_arrivals_run:
  "fst (Arrivals_B decode_arrivals arrivals_service ''900100003'' noon 600000000000 AllTransport fresh)
     = Inr [Departure.truncate (arrival_1\<lparr>Direction := ''Platform 3 area''\<rparr>),
            Departure.truncate arrival_2]"
  by code_simp

text \<open>
  Claim C5. Every record that \<open>Arrivals\<close> exposes comes from a record decoded from the
  response. Where the decoded record has the empty string as its direction, the exposed
  \<open>Direction\<close> is the record's provenance; where it has a direction, the exposed
  \<open>Direction\<close> is that one and the provenance plays no part.
\<close>

theorem arrival_direction_fallback:
  assumes "fst (Arrivals_B decode cl stopID whn duration transportTypes w) = Inr ds"
  shows "\<exists>resp res.
           c cl (last (sent (snd (Arrivals_B decode cl stopID whn duration transportTypes w)))) = Inr resp
           \<and> decode (Body resp) = Inr res
           \<and> length ds = length res
           \<and> (\<forall>i<length res.
                 Direction (ds ! i) =
                   (if Direction (res ! i) = [] then Provenance (res ! i) else Direction (res ! i)))"
proof -
  from Arrivals_B_Inr [OF assms] obtain resp res where
    r: "c cl (last (sent (snd (Arrivals_B decode cl stopID whn duration transportTypes w)))) = Inr resp"
      "decode (Body resp) = Inr res" "ds = arrivals_loop [] res"
    by blast
  have "length ds = length res"
    using r(3) by (simp add: arrivals_loop_length)
  moreover have "\<forall>i<length res.
      Direction (ds ! i) = (if Direction (res ! i) = [] then Provenance (res ! i) else Direction (res ! i))"
    using r(3) arrivals_loop_Direction by blast
  ultimately show ?thesis
    using r(1,2) by blast
qed

theorem arrival_direction_fallback_witness:
  "fst (Arrivals_B decode_arrivals arrivals_service ''900100003'' noon 600000000000 AllTransport fresh)
     = Inr [Departure.truncate (arrival_1\<lparr>Direction := ''Platform 3 area''\<rparr>),
            Departure.truncate arrival_2]
   \<and> (\<exists>resp res.
         c arrivals_service
           (last (sent (snd (Arrivals_B decode_arrivals arrivals_service ''900100003'' noon
                                600000000000 AllTransport fresh)))) = Inr resp
         \<and> decode_arrivals (Body resp) = Inr res
         \<and> length [Departure.truncate (arrival_1\<lparr>Direction := ''Platform 3 area''\<rparr>),
                    Departure.truncate arrival_2] = length res
         \<and> (\<forall>i<length res.
               Direction ([Departure.truncate (arrival_1\<lparr>Direction := ''Platform 3 area''\<rparr>),
                           Departure.truncate arrival_2] ! i) =
                 (if Direction (res ! i) = [] then Provenance (res ! i) else Direction (res ! i))))"
  using arrival_direction_fallback [OF two_arrivals_run] two_arrivals_run by blast

text \<open>
  Claim C9. The step after decoding changes nothing but \<open>Direction\<close>: the records exposed
  by \<open>Arrivals\<close> are as many as the decoded ones and in their order, and the fields
  \<open>When\<close>, \<open>PlannedWhen\<close>, \<open>Delay\<close>, \<open>Platform\<close>, \<open>PlannedPlatform\<close> and \<open>Line\<close>
  of each are those of the decoded record.
\<close>

theorem arrivals_keep_other_fields:
  assumes "fst (Arrivals_B decode cl stopID whn duration transportTypes w) = Inr ds"
  shows "\<exists>resp res.
           c cl (last (sent (snd (Arrivals_B decode cl stopID whn duration transportTypes w)))) = Inr resp
           \<and> decode (Body resp) = Inr res
           \<and> length ds = length res
           \<and> (\<forall>i<length res.
                 When (ds ! i) = When (res ! i)
                 \<and> PlannedWhen (ds ! i) = PlannedWhen (res ! i)
                 \<and> Delay (ds ! i) = Delay (res ! i)
                 \<and> Platform (ds ! i) = Platform (res ! i)
                 \<and> PlannedPlatform (ds ! i) = PlannedPlatform (res ! i)
                 \<and> Line (ds ! i) = Line (res ! i))"
proof -
  from Arrivals_B_Inr [OF assms] obtain resp res where
    r: "c cl (last (sent (snd (Arrivals_B decode cl stopID whn duration transportTypes w)))) = Inr resp"
      "decode (Body resp) = Inr res" "ds = arrivals_loop [] res"
    by blast
  have "length ds = length res"
    using r(3) by (simp add: arrivals_loop_length)
  moreover have "\<forall>i<length res.
      When (ds ! i) = When (res ! i)
      \<and> PlannedWhen (ds ! i) = PlannedWhen (res ! i)
      \<and> Delay (ds ! i) = Delay (res ! i)
      \<and> Platform (ds ! i) = Platform (res ! i)
      \<and> PlannedPlatform (ds ! i) = PlannedPlatform (res ! i)
      \<and> Line (ds ! i) = Line (res ! i)"
    using r(3) arrivals_loop_frame by blast
  ultimately show ?thesis
    using r(1,2) by blast
qed

theorem arrivals_keep_other_fields_witness:
  "fst (Arrivals_B decode_arrivals arrivals_service ''900100003'' noon 600000000000 AllTransport fresh)
     = Inr [Departure.truncate (arrival_1\<lparr>Direction := ''Platform 3 area''\<rparr>),
            Departure.truncate arrival_2]
   \<and> (\<exists>resp res.
         c arrivals_service
           (last (sent (snd (Arrivals_B decode_arrivals arrivals_service ''900100003'' noon
                                600000000000 AllTransport fresh)))) = Inr resp
         \<and> decode_arrivals (Body resp) = Inr res
         \<and> length [Departure.truncate (arrival_1\<lparr>Direction := ''Platform 3 area''\<rparr>),
                    Departure.truncate arrival_2] = length res
         \<and> (\<forall>i<length res.
               When ([Departure.truncate (arrival_1\<lparr>Direction := ''Platform 3 area''\<rparr>),
                           Departure.truncate arrival_2] ! i) = When (res ! i)
               \<and> PlannedWhen ([Departure.truncate (arrival_1\<lparr>Direction := ''Platform 3 area''\<rparr>),
                           Departure.truncate arrival_2] ! i) = PlannedWhen (res ! i)
               \<and> Delay ([Departure.truncate (arrival_1\<lparr>Direction := ''Platform 3 area''\<rparr>),
                           Departure.truncate arrival_2] ! i) = Delay (res ! i)
               \<and> Platform ([Departure.truncate (arrival_1\<lparr>Direction := ''Platform 3 area''\<rparr>),
                           Departure.truncate arrival_2] ! i) = Platform (res ! i)
               \<and> PlannedPlatform ([Departure.truncate (arrival_1\<lparr>Direction := ''Platform 3 area''\<rparr>),
                           Departure.truncate arrival_2] ! i) = PlannedPlatform (res ! i)
               \<and> Line ([Departure.truncate (arrival_1\<lparr>Direction := ''Platform 3 area''\<rparr>),
                           Departure.truncate arrival_2] ! i) = Line (res ! i)))"
  using arrivals_keep_other_fields [OF two_arrivals_run] two_arrivals_run by blast

subsection \<open>Encoding and decoding a location\<close>

lemma valid_literals: "ToValidUTF8 ''location'' = ''location''"
  by code_simp

lemma key_is_simps:
  "key_is ''Type'' ''Type''" "key_is ''ID'' ''ID''" "key_is ''Name'' ''Name''"
  "key_is ''Address'' ''Address''" "key_is ''Location'' ''Location''"
  "key_is ''Latitude'' ''Latitude''" "key_is ''Longitude'' ''Longitude''" "key_is ''POI'' ''POI''"
  "\<not> key_is ''ID'' ''Type''"
  "\<not> key_is ''Name'' ''Type''" "\<not> key_is ''Name'' ''ID''"
  "\<not> key_is ''Address'' ''Type''" "\<not> key_is ''Address'' ''ID''" "\<not> key_is ''Address'' ''Name''"
  "\<not> key_is ''Location'' ''Type''" "\<not> key_is ''Location'' ''ID''" "\<not> key_is ''Location'' ''Name''"
  "\<not> key_is ''Location'' ''Address''"
  "\<not> key_is ''Latitude'' ''Type''" "\<not> key_is ''Latitude'' ''ID''" "\<not> key_is ''Latitude'' ''Name''"
  "\<not> key_is ''Latitude'' ''Address''" "\<not> key_is ''Latitude'' ''Location''"
  "\<not> key_is ''Longitude'' ''Type''" "\<not> key_is ''Longitude'' ''ID''" "\<not> key_is ''Longitude'' ''Name''"
  "\<not> key_is ''Longitude'' ''Address''" "\<not> key_is ''Longitude'' ''Location''"
  "\<not> key_is ''Longitude'' ''Latitude''"
  "\<not> key_is ''POI'' ''Type''" "\<not> key_is ''POI'' ''ID''" "\<not> key_is ''POI'' ''Name''"
  "\<not> key_is ''POI'' ''Address''" "\<not> key_is ''POI'' ''Location''"
  "\<not> key_is ''POI'' ''Latitude''" "\<not> key_is ''POI'' ''Longitude''"
  by (simp_all add: key_is_def to_lower_def)

lemma marshal_stop:
  assumes "Type loc = ''stop''" "Latitude loc = Finite x" "Longitude loc = Finite y"
  shows "MarshalJSON loc = Inr (JObject
     ([(''Type'', JString ''stop''), (''ID'', JString (ToValidUTF8 (ID loc))),
       (''Name'', JString (ToValidUTF8 (Name loc)))]
      @ (if Address loc = [] then [] else [(''Address'', JString (ToValidUTF8 (Address loc)))])
      @ [(''Location'', JObject [(''Type'', JString ''location''), (''Latitude'', JNumber x),
                                 (''Longitude'', JNumber y)])]))"
proof -
  have s: "ToValidUTF8 ''stop'' = ''stop''" by code_simp
  show ?thesis
    using assms
    by (simp add: MarshalJSON_def json_Marshal_def marshal_coords_def add_member_def to_object_def
        marshal_string_def marshal_float_def zero_hafasLocation_def valid_literals s)
qed

lemma marshal_other:
  assumes "Type loc \<noteq> ''stop''"
  shows "MarshalJSON loc = Inr (JObject
     ([(''Type'', JString (ToValidUTF8 (Type loc))), (''ID'', JString (ToValidUTF8 (ID loc))),
       (''Name'', JString (ToValidUTF8 (Name loc)))]
      @ (if Address loc = [] then [] else [(''Address'', JString (ToValidUTF8 (Address loc)))])
      @ (if Type loc = ''poi'' then [(''POI'', JBool True)] else [])))"
  using assms
  by (simp add: MarshalJSON_def json_Marshal_def add_member_def to_object_def
        marshal_string_def marshal_float_def zero_hafasLocation_def)

lemma unmarshal_stop:
  "json_Unmarshal (JObject
     ([(''Type'', JString t), (''ID'', JString i), (''Name'', JString n)]
      @ (if a = [] then [] else [(''Address'', JString a')])
      @ [(''Location'', JObject [(''Type'', JString ''location''), (''Latitude'', JNumber x),
                                 (''Longitude'', JNumber y)])]))
   = Inr \<lparr>hType = t, hID = i, hName = n, hAddress = (if a = [] then [] else a'),
          hLocation = Some \<lparr>cType = ''location'', cLatitude = Finite x, cLongitude = Finite y\<rparr>,
          hLatitude = Finite 0, hLongitude = Finite 0, hPOI = False\<rparr>"
  by (simp add: json_Unmarshal_def location_member_def coords_member_def set_string_def
      set_float_def set_coords_def zero_hafasLocation_def zero_coords_def key_is_simps Let_def)

lemma unmarshal_other:
  "json_Unmarshal (JObject
     ([(''Type'', JString t), (''ID'', JString i), (''Name'', JString n)]
      @ (if a = [] then [] else [(''Address'', JString a')])
      @ (if p then [(''POI'', JBool True)] else [])))
   = Inr \<lparr>hType = t, hID = i, hName = n, hAddress = (if a = [] then [] else a'),
          hLocation = None, hLatitude = Finite 0, hLongitude = Finite 0, hPOI = p\<rparr>"
  by (simp add: json_Unmarshal_def location_member_def set_string_def set_bool_def
      zero_hafasLocation_def key_is_simps Let_def)

lemma marshal_stop_fails:
  assumes "Type loc = ''stop''" "\<nexists>x y. Latitude loc = Finite x \<and> Longitude loc = Finite y"
  shows "\<exists>err. MarshalJSON loc = Inl err"
  using assms
  by (cases "Latitude loc"; cases "Longitude loc")
     (simp_all add: MarshalJSON_def json_Marshal_def marshal_coords_def add_member_def to_object_def
        marshal_string_def marshal_float_def zero_hafasLocation_def Let_def)

text \<open>
  Claim C7. \<open>MarshalJSON\<close> emits the nested coordinate object iff the kind is \<open>stop\<close>, and
  emits the point-of-interest boolean as true iff the kind is \<open>poi\<close> and as false for
  every other kind. The second half fails: the field \<open>POI\<close> is tagged \<open>omitempty\<close>, so
  for a kind other than \<open>poi\<close> no boolean is emitted at all. An address is encoded
  without a member \<open>POI\<close>.
\<close>

theorem address_has_no_POI_member_counterexample:
  "MarshalJSON address_loc = Inr (JObject
     [(''Type'', JString ''address''), (''ID'', JString []), (''Name'', JString ''Alexanderplatz 1''),
      (''Address'', JString ''Alexanderplatz 1'')])
   \<and> json_get (JObject
     [(''Type'', JString ''address''), (''ID'', JString []), (''Name'', JString ''Alexanderplatz 1''),
      (''Address'', JString ''Alexanderplatz 1'')]) ''POI'' = None"
  by code_simp

text \<open>
  Claim C7 as amended. For every location that \<open>MarshalJSON\<close> encodes, the nested
  coordinate object is emitted iff the kind is \<open>stop\<close>; the member \<open>POI\<close> is emitted, and
  is true, iff the kind is \<open>poi\<close>, and is left out for every other kind; decoding the
  encoded form gives a point-of-interest flag that is true iff the kind is \<open>poi\<close>.
\<close>

theorem encoded_members_mirror_kind:
  assumes "MarshalJSON loc = Inr j"
  shows "(json_get j ''Location'' \<noteq> None \<longleftrightarrow> Type loc = ''stop'')
       \<and> json_get j ''POI'' = (if Type loc = ''poi'' then Some (JBool True) else None)
       \<and> (\<exists>h. json_Unmarshal j = Inr h \<and> (hPOI h \<longleftrightarrow> Type loc = ''poi''))"
proof (cases "Type loc = ''stop''")
  case True
  then obtain x y where xy: "Latitude loc = Finite x" "Longitude loc = Finite y"
    using marshal_stop_fails [of loc] assms by fastforce
  have j: "j = JObject
     ([(''Type'', JString ''stop''), (''ID'', JString (ToValidUTF8 (ID loc))),
       (''Name'', JString (ToValidUTF8 (Name loc)))]
      @ (if Address loc = [] then [] else [(''Address'', JString (ToValidUTF8 (Address loc)))])
      @ [(''Location'', JObject [(''Type'', JString ''location''), (''Latitude'', JNumber x),
                                 (''Longitude'', JNumber y)])])"
    using marshal_stop [OF True xy] assms by simp
  have "json_get j ''Location'' \<noteq> None" "json_get j ''POI'' = None"
    by (simp_all add: j json_get_def)
  moreover have "\<exists>h. json_Unmarshal j = Inr h \<and> \<not> hPOI h"
    unfolding j by (simp only: unmarshal_stop) simp
  ultimately show ?thesis
    using True by simp
next
  case False
  have j: "j = JObject
     ([(''Type'', JString (ToValidUTF8 (Type loc))), (''ID'', JString (ToValidUTF8 (ID loc))),
       (''Name'', JString (ToValidUTF8 (Name loc)))]
      @ (if Address loc = [] then [] else [(''Address'', JString (ToValidUTF8 (Address loc)))])
      @ (if Type loc = ''poi'' then [(''POI'', JBool True)] else []))"
    using marshal_other [OF False] assms by simp
  have "json_get j ''Location'' = None"
    "json_get j ''POI'' = (if Type loc = ''poi'' then Some (JBool True) else None)"
    by (simp_all add: j json_get_def)
  moreover have "\<exists>h. json_Unmarshal j = Inr h \<and> (hPOI h \<longleftrightarrow> Type loc = ''poi'')"
    unfolding j by (simp only: unmarshal_other) simp
  ultimately show ?thesis
    using False by simp
qed

lemma museum_run:
  "MarshalJSON poi_museum = Inr (JObject
     [(''Type'', JString ''poi''), (''ID'', JString ''900980709''),
      (''Name'', JString ''Berlin, Pergamonmuseum''), (''POI'', JBool True)])"
  by code_simp

lemma museum_kind: "Type poi_museum = ''poi''"
  by (simp add: poi_museum_def)

theorem encoded_members_mirror_kind_witness:
  "MarshalJSON poi_museum = Inr (JObject
     [(''Type'', JString ''poi''), (''ID'', JString ''900980709''),
      (''Name'', JString ''Berlin, Pergamonmuseum''), (''POI'', JBool True)])
   \<and> json_get (JObject
     [(''Type'', JString ''poi''), (''ID'', JString ''900980709''),
      (''Name'', JString ''Berlin, Pergamonmuseum''), (''POI'', JBool True)]) ''Location'' = None
   \<and> json_get (JObject
     [(''Type'', JString ''poi''), (''ID'', JString ''900980709''),
      (''Name'', JString ''Berlin, Pergamonmuseum''), (''POI'', JBool True)]) ''POI'' = Some (JBool True)
   \<and> (\<exists>h. json_Unmarshal (JObject
     [(''Type'', JString ''poi''), (''ID'', JString ''900980709''),
      (''Name'', JString ''Berlin, Pergamonmuseum''), (''POI'', JBool True)]) = Inr h \<and> hPOI h)"
  using encoded_members_mirror_kind [OF museum_run] museum_run museum_kind by simp

text \<open>
  Claim C4. Encoding a location of kind \<open>stop\<close> and decoding the result gives back its
  kind, id, name, latitude and longitude, and the encoded form holds the nested coordinate
  object with these coordinates. It does not hold of every such location: one whose
  latitude is not a number is not encoded at all (\<open>json.Marshal\<close> returns an error).
\<close>

theorem stop_with_NaN_is_not_encoded_counterexample:
  "Type stop_nan = ''stop'' \<and> Latitude stop_nan = NaN
   \<and> MarshalJSON stop_nan = Inl (LibError ''json: unsupported value'')"
  by code_simp

text \<open>
  Claim C4 as amended. For every location of kind \<open>stop\<close> whose latitude and longitude are
  finite and whose id and name are valid UTF-8 (strings that the encoder writes unchanged),
  \<open>MarshalJSON\<close> succeeds, \<open>UnmarshalJSON\<close> of the result succeeds, the decoded location
  has the kind, id, name, latitude and longitude of the original, and the encoded form
  holds the nested object with type \<open>location\<close> and the original coordinates.
\<close>

theorem stop_location_round_trip:
  assumes "Type loc = ''stop''" "Latitude loc = Finite x" "Longitude loc = Finite y"
    "ToValidUTF8 (ID loc) = ID loc" "ToValidUTF8 (Name loc) = Name loc"
  shows "\<exists>j loc'. MarshalJSON loc = Inr j \<and> UnmarshalJSON j = Inr loc'
          \<and> Type loc' = Type loc \<and> ID loc' = ID loc \<and> Name loc' = Name loc
          \<and> Latitude loc' = Latitude loc \<and> Longitude loc' = Longitude loc
          \<and> json_get j ''Location'' =
               Some (JObject [(''Type'', JString ''location''), (''Latitude'', JNumber x),
                              (''Longitude'', JNumber y)])"
proof -
  let ?j = "JObject
     ([(''Type'', JString ''stop''), (''ID'', JString (ToValidUTF8 (ID loc))),
       (''Name'', JString (ToValidUTF8 (Name loc)))]
      @ (if Address loc = [] then [] else [(''Address'', JString (ToValidUTF8 (Address loc)))])
      @ [(''Location'', JObject [(''Type'', JString ''location''), (''Latitude'', JNumber x),
                                 (''Longitude'', JNumber y)])])"
  have m: "MarshalJSON loc = Inr ?j"
    by (rule marshal_stop [OF assms(1-3)])
  have u: "UnmarshalJSON ?j = Inr \<lparr>Type = ''stop'', ID = ID loc, Name = Name loc,
      Address = (if Address loc = [] then [] else ToValidUTF8 (Address loc)),
      Latitude = Finite x, Longitude = Finite y, Distance = 0\<rparr>"
    unfolding UnmarshalJSON_def by (simp only: unmarshal_stop) (simp add: assms)
  have g: "json_get ?j ''Location'' =
      Some (JObject [(''Type'', JString ''location''), (''Latitude'', JNumber x),
                     (''Longitude'', JNumber y)])"
    by (simp add: json_get_def)
  show ?thesis
    using m u g assms by simp
qed

lemma alex_valid: "ToValidUTF8 (ID stop_alex) = ID stop_alex" "ToValidUTF8 (Name stop_alex) = Name stop_alex"
  by code_simp+

lemma alex_fields:
  "Type stop_alex = ''stop''" "Latitude stop_alex = Finite (105043 / 2000)"
  "Longitude stop_alex = Finite (13411 / 1000)"
  by (simp_all add: stop_alex_def)

theorem stop_location_round_trip_witness:
  "Type stop_alex = ''stop'' \<and> Latitude stop_alex = Finite (105043 / 2000)
   \<and> Longitude stop_alex = Finite (13411 / 1000)
   \<and> ToValidUTF8 (ID stop_alex) = ID stop_alex \<and> ToValidUTF8 (Name stop_alex) = Name stop_alex
   \<and> (\<exists>j loc'. MarshalJSON stop_alex = Inr j \<and> UnmarshalJSON j = Inr loc'
          \<and> Type loc' = Type stop_alex \<and> ID loc' = ID stop_alex \<and> Name loc' = Name stop_alex
          \<and> Latitude loc' = Latitude stop_alex \<and> Longitude loc' = Longitude stop_alex
          \<and> json_get j ''Location'' =
               Some (JObject [(''Type'', JString ''location''), (''Latitude'', JNumber (105043 / 2000)),
                              (''Longitude'', JNumber (13411 / 1000))]))"
  using stop_location_round_trip [OF alex_fields alex_valid] alex_fields alex_valid by blast

subsection \<open>The parameter \<open>when\<close>\<close>

lemma is_digit_digit_char: "d < 10 \<Longrightarrow> is_digit (digit_char d)"
  by (simp add: is_digit_def digit_char_def)

lemma digits_all: "list_all is_digit (digits n)"
proof (induction n rule: digits.induct)
  case (1 n)
  show ?case
  proof (cases "n < 10")
    case True
    then show ?thesis by (subst digits.simps) (simp add: is_digit_digit_char)
  next
    case False
    with 1 show ?thesis by (subst digits.simps) (simp add: is_digit_digit_char)
  qed
qed

lemma digits_length: "n < 10 ^ k \<Longrightarrow> 0 < k \<Longrightarrow> length (digits n) \<le> k"
proof (induction n arbitrary: k rule: digits.induct)
  case (1 n)
  show ?case
  proof (cases "n < 10")
    case True
    then show ?thesis using 1(3) by (subst digits.simps) simp
  next
    case False
    then obtain k' where k: "k = Suc k'" "0 < k'"
      using 1(2,3) by (cases k; cases "k - 1") auto
    have "n div 10 < 10 ^ k'"
      using 1(2) k by (simp add: less_mult_imp_div_less mult.commute)
    then have "length (digits (n div 10)) \<le> k'"
      using 1(1) [OF False] k by simp
    then show ?thesis
      using False k by (subst digits.simps) simp
  qed
qed

lemma fits_append:
  "length p1 = length s1 \<Longrightarrow> fits (p1 @ p2) (s1 @ s2) \<longleftrightarrow> fits p1 s1 \<and> fits p2 s2"
  by (induction p1 s1 rule: list_induct2) auto

lemma fits_nines: "fits (replicate n CHR ''9'') s \<longleftrightarrow> length s = n \<and> list_all is_digit s"
proof (induction n arbitrary: s)
  case 0
  then show ?case by (cases s) simp_all
next
  case (Suc n)
  then show ?case by (cases s) auto
qed

lemma appendInt_digits:
  assumes "0 \<le> x" "x < 10 ^ w" "0 < w"
  shows "length (appendInt x w) = w \<and> list_all is_digit (appendInt x w)"
proof -
  have "nat \<bar>x\<bar> < 10 ^ w"
    using assms(1,2) by (simp add: nat_less_iff)
  then have "length (digits (nat \<bar>x\<bar>)) \<le> w"
    using assms(3) by (rule digits_length)
  moreover have "is_digit CHR ''0''"
    by (simp add: is_digit_def)
  ultimately show ?thesis
    using assms(1) digits_all [of "nat \<bar>x\<bar>"]
    by (auto simp: appendInt_def Let_def list_all_iff)
qed

lemma appendInt_fits:
  assumes "0 \<le> x" "x < 10 ^ w" "0 < w"
  shows "fits (replicate w CHR ''9'') (appendInt x w)" "length (appendInt x w) = w"
  using appendInt_digits [OF assms] by (simp_all add: fits_nines)

lemma quo_nonneg: "0 \<le> a \<Longrightarrow> 0 < b \<Longrightarrow> quo a b = a div b"
  by (cases "a = 0") (simp_all add: quo_def)

lemma rem_nonneg: "0 \<le> a \<Longrightarrow> 0 < b \<Longrightarrow> rem a b = a mod b"
  by (simp add: rem_def quo_nonneg minus_mult_div_eq_mod)

lemma int_div_less: "(x::int) < b * n \<Longrightarrow> 0 < b \<Longrightarrow> x div b < n"
proof -
  assume a: "x < b * n" "0 < b"
  have "0 \<le> x mod b"
    using a(2) by simp
  moreover have "b * (x div b) + x mod b = x"
    by simp
  ultimately have "b * (x div b) < b * n"
    using a(1) by linarith
  then show ?thesis
    using a(2) by (simp add: mult_less_cancel_left_pos)
qed

lemma quo_abs_less: "\<bar>a\<bar> < b * n \<Longrightarrow> 0 < b \<Longrightarrow> \<bar>quo a b\<bar> < n"
proof -
  assume a: "\<bar>a\<bar> < b * n" "0 < b"
  have "\<bar>quo a b\<bar> = \<bar>a\<bar> div b"
    using a(2) by (cases "a = 0") (simp_all add: quo_def abs_mult abs_sgn_eq pos_imp_zdiv_nonneg_iff)
  also have "\<dots> < n"
    using a by (rule int_div_less)
  finally show ?thesis .
qed

lemma format_zone_fits:
  assumes "\<bar>off\<bar> < 360000"
  shows "fits ''+9999'' (format_zone False off)"
proof -
  define z where "z = \<bar>quo off 60\<bar>"
  have z: "0 \<le> z" "z < 6000"
    using quo_abs_less [of off 60 6000] assms by (simp_all add: z_def)
  have h: "0 \<le> quo z 60" "quo z 60 < 10 ^ 2" "0 \<le> rem z 60" "rem z 60 < 10 ^ 2"
    using z by (simp_all add: quo_nonneg rem_nonneg)
  have fz: "format_zone False off =
      (if quo off 60 < 0 then ''-'' else ''+'') @ appendInt (quo z 60) 2 @ appendInt (rem z 60) 2"
    by (simp add: format_zone_def Let_def z_def)
  have tpl: "''+9999'' = ''+'' @ replicate 2 CHR ''9'' @ replicate 2 CHR ''9''"
    by (simp add: eval_nat_numeral)
  show ?thesis
    unfolding fz tpl
    using appendInt_fits [OF h(1,2)] appendInt_fits [OF h(3,4)]
    by (simp add: fits_append)
qed

lemma format_date_clock_fits:
  assumes "Time_wf t" "0 \<le> year t" "year t \<le> 9999"
  shows "fits ''9999-99-99T99:99:99'' (format_date_clock t)" "length (format_date_clock t) = 19"
proof -
  have y: "0 \<le> year t" "year t < 10 ^ 4"
    using assms by simp_all
  have f: "0 \<le> int (month t)" "int (month t) < 10 ^ 2" "0 \<le> int (day t)" "int (day t) < 10 ^ 2"
    "0 \<le> int (hour t)" "int (hour t) < 10 ^ 2" "0 \<le> int (minute t)" "int (minute t) < 10 ^ 2"
    "0 \<le> int (second t)" "int (second t) < 10 ^ 2"
    using assms(1) by (simp_all add: Time_wf_def)
  have tpl: "''9999-99-99T99:99:99'' =
      replicate 4 CHR ''9'' @ ''-'' @ replicate 2 CHR ''9'' @ ''-'' @ replicate 2 CHR ''9'' @ ''T''
      @ replicate 2 CHR ''9'' @ '':'' @ replicate 2 CHR ''9'' @ '':'' @ replicate 2 CHR ''9''"
    by (simp add: eval_nat_numeral)
  note pieces = appendInt_fits [OF y] appendInt_fits [OF f(1,2)] appendInt_fits [OF f(3,4)]
    appendInt_fits [OF f(5,6)] appendInt_fits [OF f(7,8)] appendInt_fits [OF f(9,10)]
  show "fits ''9999-99-99T99:99:99'' (format_date_clock t)"
    unfolding tpl format_date_clock_def using pieces by (simp add: fits_append)
  show "length (format_date_clock t) = 19"
    unfolding format_date_clock_def using pieces by simp
qed

lemma Format_NumTZ_pattern:
  assumes "Time_wf t" "0 \<le> year t" "year t \<le> 9999" "\<bar>offset t\<bar> < 360000"
  shows "when_pattern (Format_NumTZ t)"
proof -
  have tpl: "''9999-99-99T99:99:99+9999'' = ''9999-99-99T99:99:99'' @ ''+9999''"
    by simp
  show ?thesis
    unfolding when_pattern_def Format_NumTZ_def tpl
    using format_date_clock_fits [OF assms(1-3)] format_zone_fits [OF assms(4)]
    by (simp only: fits_append length_Cons list.size)
qed

lemma when_B: "map_of (query_B t duration transportTypes) ''when'' = Some [Format_NumTZ t]"
  by (simp add: query_B_def addTransportTypeParams_def Values_Set_def)

lemma when_A: "map_of (query_A t duration transportTypes) ''when'' = Some [Format_RFC3339 t]"
  by (simp add: query_A_def Values_Set_def)

lemma appendInt_chars: "ch \<in> set (appendInt x w) \<Longrightarrow> is_digit ch \<or> ch = CHR ''-''"
  using digits_all [of "nat \<bar>x\<bar>"]
  by (auto simp: appendInt_def Let_def list_all_iff is_digit_def split: if_splits)

lemma Format_NumTZ_no_Z: "CHR ''Z'' \<notin> set (Format_NumTZ t)"
proof
  assume "CHR ''Z'' \<in> set (Format_NumTZ t)"
  then have "\<exists>x w. CHR ''Z'' \<in> set (appendInt x w)"
    by (auto simp: Format_NumTZ_def format_date_clock_def format_zone_def Let_def split: if_splits)
  then obtain x w where "CHR ''Z'' \<in> set (appendInt x w)"
    by blast
  from appendInt_chars [OF this] show False
    by (simp add: is_digit_def)
qed

lemma noon_utc_ok:
  "Time_wf noon_utc" "0 \<le> year noon_utc" "year noon_utc \<le> 9999" "\<bar>offset noon_utc\<bar> < 360000"
  by (simp_all add: noon_utc_def Time_wf_def)

lemma noon_utc_NumTZ: "Format_NumTZ noon_utc = ''2024-03-09T12:00:00+0000''"
  by code_simp

text \<open>
  Claim C6. \<open>Departures\<close> and \<open>Arrivals\<close> encode \<open>when\<close> in the pattern
  \<open>YYYY-MM-DDThh:mm:ss\<plusminus>hhmm\<close>, with a numeric offset and never a \<open>Z\<close>. Generation A
  does not: it formats with \<open>time.RFC3339\<close>, and a time in UTC gets the suffix \<open>Z\<close>.
\<close>

theorem generation_A_when_has_Z_counterexample:
  "map_of (query_A noon_utc 600000000000 AllTransport) ''when'' = Some [''2024-03-09T12:00:00Z'']
   \<and> \<not> when_pattern ''2024-03-09T12:00:00Z''"
  by code_simp

text \<open>
  Claim C6 as amended. In generation B, for every reference time whose year is between 0
  and 9999 and whose zone offset is less than 100 hours in magnitude, the parameter
  \<open>when\<close> of \<open>Departures\<close> and \<open>Arrivals\<close> is in the pattern
  \<open>YYYY-MM-DDThh:mm:ss\<plusminus>hhmm\<close>, and it holds no \<open>Z\<close>.
\<close>

theorem generation_B_when_pattern:
  assumes "Time_wf t" "0 \<le> year t" "year t \<le> 9999" "\<bar>offset t\<bar> < 360000"
  shows "map_of (query_B t duration transportTypes) ''when'' = Some [Format_NumTZ t]
       \<and> when_pattern (Format_NumTZ t)
       \<and> CHR ''Z'' \<notin> set (Format_NumTZ t)"
  using when_B Format_NumTZ_pattern [OF assms] Format_NumTZ_no_Z by blast

theorem generation_B_when_pattern_witness:
  "Time_wf noon_utc \<and> 0 \<le> year noon_utc \<and> year noon_utc \<le> 9999 \<and> \<bar>offset noon_utc\<bar> < 360000
   \<and> map_of (query_B noon_utc 600000000000 AllTransport) ''when'' = Some [''2024-03-09T12:00:00+0000'']
   \<and> when_pattern ''2024-03-09T12:00:00+0000''
   \<and> CHR ''Z'' \<notin> set ''2024-03-09T12:00:00+0000''"
  using generation_B_when_pattern [OF noon_utc_ok, of 600000000000 AllTransport] noon_utc_ok
  by (simp only: noon_utc_NumTZ) simp

subsection \<open>The parameter \<open>duration\<close>\<close>

lemma rhe_bounds: "\<lfloor>q\<rfloor> \<le> round_half_even q" "round_half_even q \<le> \<lfloor>q\<rfloor> + 1"
  by (simp_all add: round_half_even_def Let_def)

lemma rhe_le: "q < of_int k + 1 / 2 \<Longrightarrow> round_half_even q \<le> k"
proof -
  assume a: "q < of_int k + 1 / 2"
  have le: "\<lfloor>q\<rfloor> \<le> k"
    using a by (simp add: floor_le_iff)
  show ?thesis
  proof (cases "\<lfloor>q\<rfloor> = k")
    case True
    then have "q - of_int \<lfloor>q\<rfloor> < 1 / 2"
      using a by simp
    then show ?thesis
      using True by (simp add: round_half_even_def Let_def)
  next
    case False
    then show ?thesis
      using le rhe_bounds(2) [of q] by linarith
  qed
qed

lemma rhe_ge: "of_int k - 1 / 2 < q \<Longrightarrow> k \<le> round_half_even q"
proof -
  assume a: "of_int k - 1 / 2 < q"
  have "of_int (k - 1) \<le> q"
    using a by simp
  then have f: "k - 1 \<le> \<lfloor>q\<rfloor>"
    by (simp only: le_floor_iff)
  show ?thesis
  proof (cases "\<lfloor>q\<rfloor> = k - 1")
    case True
    then have "1 / 2 < q - of_int \<lfloor>q\<rfloor>"
      using a by simp
    then show ?thesis
      using True by (simp add: round_half_even_def Let_def)
  next
    case False
    then show ?thesis
      using f rhe_bounds(1) [of q] by linarith
  qed
qed

lemma binade_le:
  assumes "0 < x"
  shows "2 powi (binade x) \<le> x"
proof -
  obtain p q where pq: "quotient_of x = (p, q)"
    by (cases "quotient_of x")
  have q: "0 < q"
    using pq by (rule quotient_of_denom_pos)
  have x: "x = of_int p / of_int q"
    using pq by (rule quotient_of_div)
  have p: "0 < p"
    using assms q x by (simp add: zero_less_divide_iff)
  define k where "k = bitlen p - bitlen q"
  show ?thesis
  proof (cases "2 powi k \<le> x")
    case True
    then show ?thesis
      by (simp add: binade_def pq k_def)
  next
    case False
    have bp: "(2::int) ^ nat (bitlen p - 1) \<le> p"
      using bitlen_bounds [OF p] by simp
    have bq: "q < 2 ^ nat (bitlen q)"
      using bitlen_bounds [OF q] by simp
    have bp1: "1 \<le> bitlen p"
      using p by (simp add: bitlen_alt_def)
    have bq0: "0 \<le> bitlen q"
      by (rule bitlen_nonneg)
    have k1: "k - 1 = (bitlen p - 1) - bitlen q"
      by (simp add: k_def)
    have "(2::rat) powi (k - 1) = 2 powi (bitlen p - 1) / 2 powi (bitlen q)"
      unfolding k1 by (rule power_int_diff) simp
    also have "\<dots> = 2 ^ nat (bitlen p - 1) / 2 ^ nat (bitlen q)"
      using bp1 bq0 by (simp add: power_int_def)
    also have "\<dots> \<le> of_int p / 2 ^ nat (bitlen q)"
    proof -
      have "(2::rat) ^ nat (bitlen p - 1) = of_int (2 ^ nat (bitlen p - 1))"
        by simp
      also have "\<dots> \<le> of_int p"
        using bp by (simp only: of_int_le_iff)
      finally show ?thesis
        by (simp add: divide_right_mono)
    qed
    also have "\<dots> \<le> of_int p / of_int q"
    proof -
      have "(of_int q :: rat) \<le> of_int (2 ^ nat (bitlen q))"
        using bq by (simp only: of_int_le_iff)
      then have "(of_int q :: rat) \<le> 2 ^ nat (bitlen q)"
        by simp
      then show ?thesis
        using p q by (simp add: frac_le)
    qed
    finally have "2 powi (k - 1) \<le> x"
      by (simp only: x)
    moreover have "binade x = k - 1"
      using False by (simp add: binade_def pq k_def)
    ultimately show ?thesis
      by simp
  qed
qed

lemma binade_less:
  assumes "0 < x" "x < 2 powi e"
  shows "binade x < e"
proof (rule ccontr)
  assume "\<not> binade x < e"
  then have "(2::rat) powi e \<le> 2 powi (binade x)"
    by (simp add: power_int_increasing)
  with binade_le [OF assms(1)] assms(2) show False
    by simp
qed

text \<open>The unit in the last place of a nonzero x below 2^e divides 2^(e - 53).\<close>

lemma fl_unit:
  assumes "x \<noteq> 0" "\<bar>x\<bar> < 2 powi e"
  obtains j where "j \<le> e - 53" "fl x = of_int (round_half_even (x / 2 powi j)) * 2 powi j"
proof -
  have "binade \<bar>x\<bar> < e"
    using assms by (intro binade_less) simp_all
  then have "binade \<bar>x\<bar> - 52 \<le> e - 53"
    by simp
  moreover have "fl x = of_int (round_half_even (x / 2 powi (binade \<bar>x\<bar> - 52))) * 2 powi (binade \<bar>x\<bar> - 52)"
    using assms(1) by (simp add: fl_def Let_def)
  ultimately show ?thesis
    using that by blast
qed

lemma multiple_of_unit:
  assumes "j \<le> e"
  shows "\<exists>n::int. (of_int k :: rat) * 2 powi e = of_int n * 2 powi j"
    and "(1::rat) \<le> 2 powi (e - j)" and "(2::rat) powi e = 2 powi (e - j) * 2 powi j"
proof -
  have e: "(2::rat) powi e = 2 powi (e - j) * 2 powi j"
    by (simp flip: power_int_add)
  have "(2::rat) powi (e - j) = of_int (2 ^ nat (e - j))"
    using assms by (simp add: power_int_def)
  then have "(of_int k :: rat) * 2 powi e = of_int (k * 2 ^ nat (e - j)) * 2 powi j"
    by (simp add: e)
  then show "\<exists>n::int. (of_int k :: rat) * 2 powi e = of_int n * 2 powi j"
    by blast
  show "(1::rat) \<le> 2 powi (e - j)"
    using assms by simp
  show "(2::rat) powi e = 2 powi (e - j) * 2 powi j"
    by (rule e)
qed

lemma fl_ge:
  assumes "x \<noteq> 0" "\<bar>x\<bar> < 2 powi e" "of_int k * 2 powi (e - 53) \<le> x"
  shows "of_int k * 2 powi (e - 53) \<le> fl x"
proof -
  from fl_unit [OF assms(1,2)] obtain j where
    j: "j \<le> e - 53" "fl x = of_int (round_half_even (x / 2 powi j)) * 2 powi j"
    by blast
  from multiple_of_unit(1) [OF j(1), of k] obtain n where
    n: "(of_int k :: rat) * 2 powi (e - 53) = of_int n * 2 powi j"
    by blast
  have u: "(0::rat) < 2 powi j"
    by simp
  have "of_int n \<le> x / 2 powi j"
    using assms(3) u by (simp add: n pos_le_divide_eq)
  then have "n \<le> round_half_even (x / 2 powi j)"
    by (intro rhe_ge) simp
  then have "(of_int n :: rat) \<le> of_int (round_half_even (x / 2 powi j))"
    by (simp only: of_int_le_iff)
  then show ?thesis
    using u by (simp add: n j(2))
qed

lemma fl_le:
  assumes "x \<noteq> 0" "\<bar>x\<bar> < 2 powi e" "x \<le> of_int k * 2 powi (e - 53)"
  shows "fl x \<le> of_int k * 2 powi (e - 53)"
proof -
  from fl_unit [OF assms(1,2)] obtain j where
    j: "j \<le> e - 53" "fl x = of_int (round_half_even (x / 2 powi j)) * 2 powi j"
    by blast
  from multiple_of_unit(1) [OF j(1), of k] obtain n where
    n: "(of_int k :: rat) * 2 powi (e - 53) = of_int n * 2 powi j"
    by blast
  have u: "(0::rat) < 2 powi j"
    by simp
  have "x / 2 powi j \<le> of_int n"
    using assms(3) u by (simp add: n pos_divide_le_eq)
  then have "round_half_even (x / 2 powi j) \<le> n"
    by (intro rhe_le) simp
  then have "(of_int (round_half_even (x / 2 powi j)) :: rat) \<le> of_int n"
    by (simp only: of_int_le_iff)
  then show ?thesis
    using u by (simp add: n j(2))
qed

lemma fl_less:
  assumes "x \<noteq> 0" "\<bar>x\<bar> < 2 powi e"
    "x < of_int k * 2 powi (e - 53) - 2 powi (e - 53) / 2"
  shows "fl x < of_int k * 2 powi (e - 53)"
proof -
  from fl_unit [OF assms(1,2)] obtain j where
    j: "j \<le> e - 53" "fl x = of_int (round_half_even (x / 2 powi j)) * 2 powi j"
    by blast
  from multiple_of_unit(1) [OF j(1), of k] obtain n where
    n: "(of_int k :: rat) * 2 powi (e - 53) = of_int n * 2 powi j"
    by blast
  define r :: rat where "r = 2 powi (e - 53 - j)"
  have r: "1 \<le> r" "(2::rat) powi (e - 53) = r * 2 powi j"
    using multiple_of_unit(2,3) [OF j(1)] by (simp_all add: r_def)
  have u: "(0::rat) < 2 powi j"
    by simp
  have "x < of_int n * 2 powi j - 2 powi (e - 53) / 2"
    using assms(3) by (simp only: n)
  then have "x < of_int n * 2 powi j - r * 2 powi j / 2"
    by (simp only: r(2))
  then have "x < (of_int n - r / 2) * 2 powi j"
    by (simp add: algebra_simps)
  then have "x / 2 powi j < of_int n - r / 2"
    using u by (simp add: pos_divide_less_eq)
  also have "\<dots> \<le> of_int (n - 1) + 1 / 2"
    using r(1) by simp
  finally have "round_half_even (x / 2 powi j) \<le> n - 1"
    by (rule rhe_le)
  then have "round_half_even (x / 2 powi j) < n"
    by simp
  then have "(of_int (round_half_even (x / 2 powi j)) :: rat) < of_int n"
    by (simp only: of_int_less_iff)
  then show ?thesis
    using u by (simp add: n j(2))
qed

lemma fl_greater:
  assumes "x \<noteq> 0" "\<bar>x\<bar> < 2 powi e"
    "of_int k * 2 powi (e - 53) + 2 powi (e - 53) / 2 < x"
  shows "of_int k * 2 powi (e - 53) < fl x"
proof -
  from fl_unit [OF assms(1,2)] obtain j where
    j: "j \<le> e - 53" "fl x = of_int (round_half_even (x / 2 powi j)) * 2 powi j"
    by blast
  from multiple_of_unit(1) [OF j(1), of k] obtain n where
    n: "(of_int k :: rat) * 2 powi (e - 53) = of_int n * 2 powi j"
    by blast
  define r :: rat where "r = 2 powi (e - 53 - j)"
  have r: "1 \<le> r" "(2::rat) powi (e - 53) = r * 2 powi j"
    using multiple_of_unit(2,3) [OF j(1)] by (simp_all add: r_def)
  have u: "(0::rat) < 2 powi j"
    by simp
  have "of_int n * 2 powi j + 2 powi (e - 53) / 2 < x"
    using assms(3) by (simp only: n)
  then have "of_int n * 2 powi j + r * 2 powi j / 2 < x"
    by (simp only: r(2))
  then have "(of_int n + r / 2) * 2 powi j < x"
    by (simp add: algebra_simps)
  then have "of_int n + r / 2 < x / 2 powi j"
    using u by (simp add: pos_less_divide_eq)
  moreover have "of_int (n + 1) - 1 / 2 \<le> of_int n + r / 2"
    using r(1) by simp
  ultimately have "of_int (n + 1) - 1 / 2 < x / 2 powi j"
    by simp
  then have "n + 1 \<le> round_half_even (x / 2 powi j)"
    by (rule rhe_ge)
  then have "n < round_half_even (x / 2 powi j)"
    by simp
  then have "(of_int n :: rat) < of_int (round_half_even (x / 2 powi j))"
    by (simp only: of_int_less_iff)
  then show ?thesis
    using u by (simp add: n j(2))
qed

lemma fl_zero: "fl 0 = 0"
  by (simp add: fl_def)

text \<open>Integers below 2^53 in magnitude are machine numbers.\<close>

lemma fl_of_int:
  assumes "\<bar>k\<bar> < 2 ^ 53"
  shows "fl (of_int k) = of_int k"
proof (cases "k = 0")
  case True
  then show ?thesis by (simp add: fl_zero)
next
  case False
  have "(of_int \<bar>k\<bar> :: rat) < of_int (2 ^ 53)"
    using assms by (simp only: of_int_less_iff)
  then have b: "\<bar>of_int k :: rat\<bar> < 2 powi 53"
    by simp
  have nz: "(of_int k :: rat) \<noteq> 0"
    using False by simp
  have "of_int k * 2 powi (53 - 53) \<le> fl (of_int k)"
    by (rule fl_ge [OF nz b]) simp
  moreover have "fl (of_int k) \<le> of_int k * 2 powi (53 - 53)"
    by (rule fl_le [OF nz b]) simp
  ultimately show ?thesis
    by simp
qed

lemma powi_minus_53: "(2::rat) powi (0 - 53) = 1 / 2 ^ 53"
proof -
  have "(2::rat) powi (0 - 53) = 2 powi (- 53)" by simp
  also have "\<dots> = inverse (2 powi 53)" by (rule power_int_minus)
  also have "\<dots> = 1 / 2 ^ 53" by (simp only: power_int_numeral inverse_eq_divide)
  finally show ?thesis .
qed

lemma powi_minus_35: "(2::rat) powi (18 - 53) = 1 / 2 ^ 35"
proof -
  have "(2::rat) powi (18 - 53) = 2 powi (- 35)" by simp
  also have "\<dots> = inverse (2 powi 35)" by (rule power_int_minus)
  also have "\<dots> = 1 / 2 ^ 35" by (simp only: power_int_numeral inverse_eq_divide)
  finally show ?thesis .
qed

lemmas powi_literals = powi_minus_53 powi_minus_35

lemma fraction_bounds:
  assumes "0 \<le> n" "n < 60000000000"
  shows "0 \<le> fl (of_int n / 60000000000)" "fl (of_int n / 60000000000) \<le> 1 - 9 / 2 ^ 39"
proof -
  let ?x = "of_int n / 60000000000 :: rat"
  have x0: "0 \<le> ?x"
    using assms(1) by simp
  have "(of_int n :: rat) \<le> of_int 59999999999"
    using assms(2) by (simp only: of_int_le_iff)
  then have "?x \<le> 59999999999 / 60000000000"
    by simp
  also have "\<dots> \<le> 1 - 9 / 2 ^ 39"
    by simp
  finally have x1: "?x \<le> 1 - 9 / 2 ^ 39" .
  have ab: "\<bar>?x\<bar> < 2 powi 0"
    using x0 x1 by simp
  have c0: "(0::rat) = of_int 0 * 2 powi (0 - 53)"
    by simp
  have c1: "(1 - 9 / 2 ^ 39 :: rat) = of_int ((2 ^ 39 - 9) * 2 ^ 14) * 2 powi (0 - 53)"
    by (simp only: powi_literals) simp
  show "0 \<le> fl ?x"
  proof (cases "?x = 0")
    case True
    then show ?thesis by (simp add: fl_zero)
  next
    case False
    have "of_int 0 * 2 powi (0 - 53) \<le> fl ?x"
      by (rule fl_ge [OF False ab]) (use x0 in simp)
    then show ?thesis by simp
  qed
  show "fl ?x \<le> 1 - 9 / 2 ^ 39"
  proof (cases "?x = 0")
    case True
    then show ?thesis by (simp add: fl_zero)
  next
    case False
    have "fl ?x \<le> of_int ((2 ^ 39 - 9) * 2 ^ 14) * 2 powi (0 - 53)"
      by (rule fl_le [OF False ab]) (use x1 c1 in simp)
    then show ?thesis by (simp only: c1)
  qed
qed

lemma sum_bounds:
  assumes "0 \<le> m" "m < 2 ^ 18" "0 \<le> f" "f \<le> 1 - 9 / 2 ^ 39"
  shows "of_int m \<le> fl (of_int m + f)" "fl (of_int m + f) < of_int m + 1"
proof -
  let ?s = "of_int m + f :: rat"
  have "(of_int m :: rat) \<le> of_int (2 ^ 18 - 1)"
    using assms(2) by (simp only: of_int_le_iff)
  then have m1: "(of_int m :: rat) \<le> 2 ^ 18 - 1"
    by simp
  have m0: "(0::rat) \<le> of_int m"
    using assms(1) by simp
  have ab: "\<bar>?s\<bar> < 2 powi 18"
    using m0 m1 assms(3,4) by simp
  have cm: "(of_int m :: rat) = of_int (m * 2 ^ 35) * 2 powi (18 - 53)"
    by (simp only: powi_literals) simp
  have cm1: "(of_int m + 1 :: rat) = of_int ((m + 1) * 2 ^ 35) * 2 powi (18 - 53)"
    by (simp only: powi_literals) simp
  have half: "(2::rat) powi (18 - 53) / 2 = 8 / 2 ^ 39"
    by (simp only: powi_literals) simp
  show "of_int m \<le> fl ?s"
  proof (cases "?s = 0")
    case True
    then have "of_int m = (0::rat)"
      using m0 assms(3) by linarith
    then show ?thesis using True by (simp add: fl_zero)
  next
    case False
    have "of_int (m * 2 ^ 35) * 2 powi (18 - 53) \<le> fl ?s"
      by (rule fl_ge [OF False ab]) (use assms(3) cm in simp)
    then show ?thesis by (simp only: cm [symmetric])
  qed
  show "fl ?s < of_int m + 1"
  proof (cases "?s = 0")
    case True
    then show ?thesis using m0 by (simp add: fl_zero)
  next
    case False
    have "?s < of_int m + 1 - 8 / 2 ^ 39"
      using assms(4) by simp
    then have "?s < of_int ((m + 1) * 2 ^ 35) * 2 powi (18 - 53) - 2 powi (18 - 53) / 2"
      by (simp only: cm1 [symmetric] half)
    from fl_less [OF False ab this] show ?thesis
      by (simp only: cm1 [symmetric])
  qed
qed

lemma rhe_minus: "round_half_even (- q) = - round_half_even q"
proof (cases "q = of_int \<lfloor>q\<rfloor>")
  case True
  then obtain k where k: "q = of_int k"
    by blast
  have "- q = of_int (- k)"
    by (simp add: k)
  then have "round_half_even (- q) = - k"
    by (simp only: round_half_even_def floor_of_int Let_def) simp
  moreover have "round_half_even q = k"
    by (simp add: k round_half_even_def)
  ultimately show ?thesis
    by simp
next
  case False
  define f where "f = \<lfloor>q\<rfloor>"
  define r where "r = q - of_int f"
  have r: "0 < r" "r < 1"
    using False floor_less_iff [of q "f + 1"] of_int_floor_le [of q]
    by (simp_all add: r_def f_def) linarith+
  have fm: "\<lfloor>- q\<rfloor> = - f - 1"
    using r by (intro floor_unique) (simp_all add: r_def)
  have rm: "- q - of_int \<lfloor>- q\<rfloor> = 1 - r"
    by (simp add: fm r_def)
  have "round_half_even q =
      (if r < 1 / 2 then f else if 1 / 2 < r then f + 1 else if even f then f else f + 1)"
    by (simp add: round_half_even_def Let_def f_def r_def)
  moreover have "round_half_even (- q) =
      (if 1 - r < 1 / 2 then - f - 1 else if 1 / 2 < 1 - r then - f - 1 + 1
       else if even (- f - 1) then - f - 1 else - f - 1 + 1)"
    unfolding round_half_even_def Let_def rm by (simp only: fm)
  ultimately show ?thesis
    by auto
qed

lemma fl_minus: "fl (- x) = - fl x"
  by (simp add: fl_def Let_def rhe_minus)

lemma float_to_int_minus: "float_to_int (- x) = - float_to_int x"
  by (auto simp: float_to_int_def ceiling_def)

lemma trunc_core:
  assumes "0 \<le> m" "m < 2 ^ 18" "0 \<le> n" "n < 60000000000"
  shows "float_to_int (fl (fl (of_int m) + fl (fl (of_int n) / 60000000000))) = m"
proof -
  have "\<bar>m\<bar> < 2 ^ 53" "\<bar>n\<bar> < 2 ^ 53"
    using assms by simp_all
  then have e: "fl (of_int m) = of_int m" "fl (of_int n) = of_int n"
    by (simp_all only: fl_of_int)
  define f where "f = fl (of_int n / 60000000000)"
  have f: "0 \<le> f" "f \<le> 1 - 9 / 2 ^ 39"
    using fraction_bounds [OF assms(3,4)] by (simp_all add: f_def)
  from sum_bounds [OF assms(1,2) f]
  have s: "of_int m \<le> fl (of_int m + f)" "fl (of_int m + f) < of_int m + 1" .
  have "0 \<le> fl (of_int m + f)"
    using s(1) assms(1) by (meson of_int_0_le_iff order_trans)
  moreover have "\<lfloor>fl (of_int m + f)\<rfloor> = m"
    using s by (intro floor_unique) simp_all
  ultimately show ?thesis
    by (simp add: e f_def [symmetric] float_to_int_def)
qed

lemma trunc_core_minus:
  assumes "0 \<le> m" "m < 2 ^ 18" "0 \<le> n" "n < 60000000000"
  shows "float_to_int (fl (fl (of_int (- m)) + fl (fl (of_int (- n)) / 60000000000))) = - m"
proof -
  have "fl (of_int (- m)) + fl (fl (of_int (- n)) / 60000000000) =
      - (fl (of_int m) + fl (fl (of_int n) / 60000000000))"
    by (simp add: fl_minus)
  then have "fl (fl (of_int (- m)) + fl (fl (of_int (- n)) / 60000000000)) =
      - fl (fl (of_int m) + fl (fl (of_int n) / 60000000000))"
    by (simp only: fl_minus)
  then show ?thesis
    by (simp only: float_to_int_minus trunc_core [OF assms])
qed

lemma quo_rem_nonneg:
  assumes "0 \<le> a" "a < 2 ^ 18 * 60000000000"
  shows "0 \<le> quo a 60000000000" "quo a 60000000000 < 2 ^ 18"
    "0 \<le> rem a 60000000000" "rem a 60000000000 < 60000000000"
  using assms by (simp_all add: quo_nonneg rem_nonneg int_div_less)

lemma quo_rem_minus: "quo (- a) b = - quo a b" "rem (- a) b = - rem a b"
  by (simp_all add: quo_def rem_def sgn_minus)

lemma Minutes_truncates:
  assumes "\<bar>sint d\<bar> < 2 ^ 18 * Minute"
  shows "float_to_int (Minutes d) = quo (sint d) Minute"
proof (cases "0 \<le> sint d")
  case True
  then have a: "0 \<le> sint d" "sint d < 2 ^ 18 * 60000000000"
    using assms by (simp_all add: Minute_def)
  show ?thesis
    using trunc_core [OF quo_rem_nonneg [OF a]]
    by (simp add: Minutes_def Minute_def Let_def)
next
  case False
  define b where "b = - sint d"
  have b: "0 \<le> b" "b < 2 ^ 18 * 60000000000"
    using False assms by (simp_all add: Minute_def b_def)
  have d: "sint d = - b"
    by (simp add: b_def)
  show ?thesis
    using trunc_core_minus [OF quo_rem_nonneg [OF b]]
    by (simp add: Minutes_def Minute_def Let_def d quo_rem_minus)
qed

lemma duration_B:
  "map_of (query_B t d transportTypes) ''duration'' = Some [Itoa (float_to_int (Minutes d))]"
  by (simp add: query_B_def addTransportTypeParams_def Values_Set_def)

lemma duration_A:
  "map_of (query_A t d transportTypes) ''duration'' = Some [FormatFloat_f0 (Minutes d)]"
  by (simp add: query_A_def Values_Set_def)

lemma ninety_seconds_rounded: "FormatFloat_f0 (Minutes 90000000000) = ''2''"
  by code_simp

lemma ninety_seconds_truncated: "Itoa (quo (sint (90000000000 :: Duration)) Minute) = ''1''"
  by code_simp

lemma ninety_seconds_small: "\<bar>sint (90000000000 :: Duration)\<bar> < 2 ^ 18 * Minute"
  by (simp add: Minute_def)

text \<open>
  Claim C8. \<open>Departures\<close> and \<open>Arrivals\<close> encode \<open>duration\<close> as the duration truncated,
  not rounded, to whole minutes. Generation A does not: it writes the minutes with
  \<open>FormatFloat(\<dots>, 'f', 0, 64)\<close>, which rounds, so 90 seconds become \<open>2\<close> where the
  truncation is \<open>1\<close>.
\<close>

theorem generation_A_duration_rounds_counterexample:
  "map_of (query_A noon 90000000000 AllTransport) ''duration'' = Some [''2'']
   \<and> Itoa (quo (sint (90000000000 :: Duration)) Minute) = ''1''"
  by (simp only: duration_A ninety_seconds_rounded ninety_seconds_truncated)

text \<open>
  Claim C8 as amended. In generation B, for every duration of less than \<open>2\<^sup>1\<^sup>8\<close> minutes
  in magnitude, the parameter \<open>duration\<close> of \<open>Departures\<close> and \<open>Arrivals\<close> is the decimal
  text of the duration divided by a minute, the quotient truncated towards zero.
\<close>

theorem generation_B_duration_truncated:
  assumes "\<bar>sint duration\<bar> < 2 ^ 18 * Minute"
  shows "map_of (query_B whn duration transportTypes) ''duration'' =
           Some [Itoa (quo (sint duration) Minute)]"
  by (simp only: duration_B Minutes_truncates [OF assms])

theorem generation_B_duration_truncated_witness:
  "\<bar>sint (90000000000 :: Duration)\<bar> < 2 ^ 18 * Minute
   \<and> map_of (query_B noon 90000000000 AllTransport) ''duration'' = Some [''1'']"
  using generation_B_duration_truncated [OF ninety_seconds_small, of noon AllTransport]
    ninety_seconds_small
  by (simp only: ninety_seconds_truncated)
end
